theory Spec2Isabelle
  imports Main "HOL-Library.Word"
begin

section \<open>Strings of the chat bot\<close>

text \<open>
  The bot of \<^verbatim>\<open>src/index.js\<close> compares, trims and stores JavaScript strings, which are
  sequences of 16-bit code units; most of them are Japanese. A text is therefore a list
  of 16-bit words, each literal of the source written out in UTF-16 (an emoji outside the
  basic plane is its surrogate pair). Opaque identifiers that the handler only passes on
  (user ids, reply tokens, message ids, base64 payloads, URLs) are plain strings.
\<close>

type_synonym jsstring = "16 word list"

text \<open>The alternatives of the greeting pattern (line 221): konnichiwa, konchiwa, yaa, hi, hello.\<close>

definition GREET_KONNICHIWA :: jsstring where
  "GREET_KONNICHIWA =
   [0x3053, 0x3093, 0x306B, 0x3061, 0x306F]"

definition GREET_KONCHIWA :: jsstring where
  "GREET_KONCHIWA =
   [0x3053, 0x3093, 0x3061, 0x306F]"

definition GREET_YAA :: jsstring where
  "GREET_YAA =
   [0x3084, 0x3042]"

definition GREET_HI :: jsstring where
  "GREET_HI =
   [0x0068, 0x0069]"

definition GREET_HELLO :: jsstring where
  "GREET_HELLO =
   [0x0068, 0x0065, 0x006C, 0x006C, 0x006F]"

text \<open>The pattern of line 228 ("model photo").\<close>

definition RE_MODEL_PHOTO :: jsstring where
  "RE_MODEL_PHOTO =
   [0x30E2, 0x30C7, 0x30EB, 0x5199, 0x771F]"

text \<open>The labels of \<open>STYLE_QR\<close> (line 173): short, bob, medium, long, wolf, mens, "send a model photo" (ending in the camera emoji, a surrogate pair), and the free-text marker (ending in U+270D U+FE0F).\<close>

definition QR_SHORT :: jsstring where
  "QR_SHORT =
   [0x30B7, 0x30E7, 0x30FC, 0x30C8]"

definition QR_BOB :: jsstring where
  "QR_BOB =
   [0x30DC, 0x30D6]"

definition QR_MEDIUM :: jsstring where
  "QR_MEDIUM =
   [0x30DF, 0x30C7, 0x30A3, 0x30A2, 0x30E0]"

definition QR_LONG :: jsstring where
  "QR_LONG =
   [0x30ED, 0x30F3, 0x30B0]"

definition QR_WOLF :: jsstring where
  "QR_WOLF =
   [0x30A6, 0x30EB, 0x30D5]"

definition QR_MENS :: jsstring where
  "QR_MENS =
   [0x30E1, 0x30F3, 0x30BA]"

definition QR_SEND_MODEL_PHOTO :: jsstring where
  "QR_SEND_MODEL_PHOTO =
   [0x30E2, 0x30C7, 0x30EB, 0x5199, 0x771F, 0x3092, 0x9001, 0x308B, 0xD83D, 0xDCF8]"

definition QR_FREE_TEXT :: jsstring where
  "QR_FREE_TEXT =
   [0x81EA, 0x7531, 0x5165, 0x529B, 0x270D, 0xFE0F]"

text \<open>The further labels of \<open>COLOR_QR\<close> (line 174): "as it is", black, milk tea, pink beige, greige.\<close>

definition QR_KEEP :: jsstring where
  "QR_KEEP =
   [0x305D, 0x306E, 0x307E, 0x307E]"

definition QR_BLACK :: jsstring where
  "QR_BLACK =
   [0x9ED2, 0x9AEA]"

definition QR_MILKTEA :: jsstring where
  "QR_MILKTEA =
   [0x30DF, 0x30EB, 0x30AF, 0x30C6, 0x30A3, 0x30FC]"

definition QR_PINKBEIGE :: jsstring where
  "QR_PINKBEIGE =
   [0x30D4, 0x30F3, 0x30AF, 0x30D9, 0x30FC, 0x30B8, 0x30E5]"

definition QR_GREIGE :: jsstring where
  "QR_GREIGE =
   [0x30B0, 0x30EC, 0x30FC, 0x30B8, 0x30E5]"

text \<open>The shortcut texts of lines 283, 287 and 293: "try once more", "change the hairstyle", "change only the hair colour".\<close>

definition SC_TRY_AGAIN :: jsstring where
  "SC_TRY_AGAIN =
   [0x3082, 0x3046, 0x4E00, 0x5EA6, 0x8A66, 0x3059]"

definition SC_CHANGE_STYLE :: jsstring where
  "SC_CHANGE_STYLE =
   [0x9AEA, 0x578B, 0x3092, 0x5909, 0x3048, 0x308B]"

definition SC_CHANGE_COLOR :: jsstring where
  "SC_CHANGE_COLOR =
   [0x9AEA, 0x8272, 0x3060, 0x3051, 0x5909, 0x3048, 0x308B]"

text \<open>The texts of the outgoing messages, in the order of the source (lines 196, 204, 212, 223, 230, 239, 242, 249, 256, 259, 271, 278, 285, 291, 295, 298).\<close>

definition MSG_FACE_RECEIVED :: jsstring where
  "MSG_FACE_RECEIVED =
   [0x30CA, 0x30A4, 0x30B9, 0x30B7, 0x30E7, 0x30C3, 0x30C8, 0xD83D, 0xDC4C, 0x0020, 0x3069,
    0x3093, 0x306A, 0x9AEA, 0x578B, 0x3092, 0x8A66, 0x3057, 0x3066, 0x307F, 0x308B, 0xFF1F,
    0xFF08, 0x53C2, 0x8003, 0x5199, 0x771F, 0x3092, 0x9001, 0x3063, 0x3066, 0x3082, 0x004F,
    0x004B, 0xFF09]"

definition MSG_MODEL_RECEIVED :: jsstring where
  "MSG_MODEL_RECEIVED =
   [0x30E2, 0x30C7, 0x30EB, 0x9AEA, 0x578B, 0x306E, 0x5199, 0x771F, 0x3092, 0x53D7, 0x3051,
    0x53D6, 0x3063, 0x305F, 0x3088, 0xFF01, 0x0020, 0x9AEA, 0x8272, 0x3082, 0x5909, 0x3048,
    0x3066, 0x307F, 0x308B, 0xFF1F, 0xD83C, 0xDFA8]"

definition MSG_FACE_UPDATED :: jsstring where
  "MSG_FACE_UPDATED =
   [0x81EA, 0x64AE, 0x308A, 0x3092, 0x66F4, 0x65B0, 0x3057, 0x305F, 0x3088, 0x3002, 0x6B21,
    0x306F, 0x9AEA, 0x578B, 0x3092, 0x9078, 0x3093, 0x3067, 0x306D, 0x2702, 0xFE0F]"

definition MSG_GREETING :: jsstring where
  "MSG_GREETING =
   [0x3053, 0x3093, 0x306B, 0x3061, 0x306F, 0xFF01, 0x307E, 0x305A, 0x306F, 0x81EA, 0x64AE,
    0x308A, 0x3092, 0x9001, 0x3063, 0x3066, 0x304F, 0x3060, 0x3055, 0x3044, 0xD83D, 0xDCF8]"

definition MSG_SEND_REFERENCE :: jsstring where
  "MSG_SEND_REFERENCE =
   [0x53C2, 0x8003, 0x306B, 0x3057, 0x305F, 0x3044, 0x9AEA, 0x578B, 0x306E, 0x5199, 0x771F,
    0x3092, 0x9001, 0x3063, 0x3066, 0x304F, 0x3060, 0x3055, 0x3044, 0xD83D, 0xDCF8, 0xFF08,
    0x6B63, 0x9762, 0x30FB, 0x660E, 0x308B, 0x3081, 0x63A8, 0x5968, 0xFF09]"

definition MSG_ENTER_STYLE :: jsstring where
  "MSG_ENTER_STYLE =
   [0x306A, 0x308A, 0x305F, 0x3044, 0x9AEA, 0x578B, 0x3092, 0x30C6, 0x30AD, 0x30B9, 0x30C8,
    0x3067, 0x6559, 0x3048, 0x3066, 0x304F, 0x3060, 0x3055, 0x3044, 0xFF08, 0x4F8B, 0xFF1A,
    0x304F, 0x3073, 0x308C, 0x30DC, 0x30D6, 0x3001, 0x30CF, 0x30F3, 0x30B5, 0x30E0, 0x30B7,
    0x30E7, 0x30FC, 0x30C8, 0x0020, 0x7B49, 0xFF09]"

definition MSG_ENTER_COLOR :: jsstring where
  "MSG_ENTER_COLOR =
   [0x9AEA, 0x8272, 0x3092, 0x30C6, 0x30AD, 0x30B9, 0x30C8, 0x3067, 0x6559, 0x3048, 0x3066,
    0x304F, 0x3060, 0x3055, 0x3044, 0xFF08, 0x4F8B, 0xFF1A, 0x30D4, 0x30F3, 0x30AF, 0x30D9,
    0x30FC, 0x30B8, 0x30E5, 0x3001, 0x30D6, 0x30EB, 0x30FC, 0x30D6, 0x30E9, 0x30C3, 0x30AF,
    0x0020, 0x7B49, 0xFF09]"

definition MSG_ASK_COLOR :: jsstring where
  "MSG_ASK_COLOR =
   [0x9AEA, 0x8272, 0x3082, 0x5909, 0x3048, 0x3066, 0x307F, 0x308B, 0xFF1F, 0xD83C, 0xDFA8]"

definition MSG_SELFIE_FIRST :: jsstring where
  "MSG_SELFIE_FIRST =
   [0x5148, 0x306B, 0x81EA, 0x64AE, 0x308A, 0x3092, 0x9001, 0x3063, 0x3066, 0x304F, 0x3060,
    0x3055, 0x3044, 0xD83D, 0xDCF8]"

definition MSG_GENERATING :: jsstring where
  "MSG_GENERATING =
   [0x0041, 0x0049, 0x304C, 0x30B9, 0x30BF, 0x30A4, 0x30EB, 0x3092, 0x751F, 0x6210, 0x4E2D,
    0x3067, 0x3059, 0x2026, 0x23F3]"

definition MSG_DONE :: jsstring where
  "MSG_DONE =
   [0x5B8C, 0x6210, 0xFF01, 0x4F3C, 0x5408, 0x3063, 0x3066, 0x307E, 0x3059, 0x306D, 0x2728,
    0x0020, 0x3082, 0x3046, 0x4E00, 0x5EA6, 0x8A66, 0x3059, 0xFF1F]"

definition MSG_APOLOGY :: jsstring where
  "MSG_APOLOGY =
   [0x3054, 0x3081, 0x3093, 0x3001, 0x753B, 0x50CF, 0x306E, 0x751F, 0x6210, 0x306B, 0x5931,
    0x6557, 0x3057, 0x307E, 0x3057, 0x305F, 0x3002, 0x3082, 0x3046, 0x4E00, 0x5EA6, 0x8A66,
    0x3057, 0x3066, 0x307F, 0x3066, 0x306D, 0xD83D, 0xDE4F]"

definition MSG_NEXT_STYLE :: jsstring where
  "MSG_NEXT_STYLE =
   [0x004F, 0x004B, 0xFF01, 0x6B21, 0x306E, 0x9AEA, 0x578B, 0x3092, 0x9078, 0x3093, 0x3067,
    0x306D, 0x2702, 0xFE0F]"

definition MSG_WHICH_STYLE :: jsstring where
  "MSG_WHICH_STYLE =
   [0x3069, 0x306E, 0x9AEA, 0x578B, 0x306B, 0x3059, 0x308B, 0xFF1F]"

definition MSG_PICK_COLOR :: jsstring where
  "MSG_PICK_COLOR =
   [0x9AEA, 0x8272, 0x3092, 0x9078, 0x3093, 0x3067, 0x306D, 0xD83C, 0xDFA8]"

definition MSG_PHOTO_PROMPT :: jsstring where
  "MSG_PHOTO_PROMPT =
   [0x307E, 0x305A, 0x306F, 0x81EA, 0x64AE, 0x308A, 0x3092, 0x9001, 0x3063, 0x3066, 0x304F,
    0x3060, 0x3055, 0x3044, 0xD83D, 0xDCF8]"

section \<open>Tests on the incoming text\<close>

text \<open>The quick-reply label lists of lines 173-174 and the one built at line 271.\<close>

definition STYLE_QR :: "jsstring list" where
  "STYLE_QR = [QR_SHORT, QR_BOB, QR_MEDIUM, QR_LONG, QR_WOLF, QR_MENS,
     QR_SEND_MODEL_PHOTO, QR_FREE_TEXT]"

definition COLOR_QR :: "jsstring list" where
  "COLOR_QR = [QR_KEEP, QR_BLACK, QR_MILKTEA, QR_PINKBEIGE, QR_GREIGE, QR_FREE_TEXT]"

definition RESULT_QR :: "jsstring list" where
  "RESULT_QR = [SC_TRY_AGAIN, SC_CHANGE_STYLE, SC_CHANGE_COLOR]"

text \<open>
  \<^verbatim>\<open>String.prototype.trim\<close> strips the WhiteSpace and LineTerminator code units of
  ECMAScript from both ends.
\<close>

definition is_js_space :: "16 word \<Rightarrow> bool" where
  "is_js_space c \<longleftrightarrow> c \<in> set [0x0009, 0x000A, 0x000B, 0x000C, 0x000D, 0x0020, 0x00A0,
     0x1680, 0x2000, 0x2001, 0x2002, 0x2003, 0x2004, 0x2005, 0x2006, 0x2007, 0x2008,
     0x2009, 0x200A, 0x2028, 0x2029, 0x202F, 0x205F, 0x3000, 0xFEFF]"

definition js_trim :: "jsstring \<Rightarrow> jsstring" where
  "js_trim s = rev (dropWhile is_js_space (rev (dropWhile is_js_space s)))"

text \<open>
  The greeting pattern of line 221 is anchored at both ends and carries the \<^verbatim>\<open>i\<close> flag.
  Without the \<^verbatim>\<open>u\<close> flag a code unit matches a pattern character when both have the
  same canonical form (their upper case, except that a code unit from 128 on is never
  mapped below 128). The pattern's characters are hiragana, which have no case and are
  nobody's upper case, and the ASCII letters of \<^verbatim>\<open>hi\<close> and \<^verbatim>\<open>hello\<close>; on these, the
  canonical form needs the ASCII letters only.
\<close>

definition canonicalize :: "16 word \<Rightarrow> 16 word" where
  "canonicalize c = (if 0x0061 \<le> c \<and> c \<le> 0x007A then c - 0x0020 else c)"

definition matches_ci :: "jsstring \<Rightarrow> jsstring \<Rightarrow> bool" where
  "matches_ci pat s \<longleftrightarrow> map canonicalize s = map canonicalize pat"

definition is_greeting :: "jsstring \<Rightarrow> bool" where
  "is_greeting txt \<longleftrightarrow>
     matches_ci GREET_KONNICHIWA txt \<or> matches_ci GREET_KONCHIWA txt \<or>
     matches_ci GREET_YAA txt \<or> matches_ci GREET_HI txt \<or> matches_ci GREET_HELLO txt"

text \<open>An unanchored literal pattern, as at line 228, is a search for a substring.\<close>

fun has_prefix :: "'a list \<Rightarrow> 'a list \<Rightarrow> bool" where
  "has_prefix [] s = True"
| "has_prefix (p # ps) [] = False"
| "has_prefix (p # ps) (c # cs) = (p = c \<and> has_prefix ps cs)"

fun regex_test :: "'a list \<Rightarrow> 'a list \<Rightarrow> bool" where
  "regex_test pat [] = has_prefix pat []"
| "regex_test pat (c # cs) = (has_prefix pat (c # cs) \<or> regex_test pat cs)"

text \<open>Lines 233-234.\<close>

definition isStylePick :: "jsstring \<Rightarrow> bool" where
  "isStylePick txt \<longleftrightarrow>
     txt \<in> set STYLE_QR \<and> txt \<noteq> QR_SEND_MODEL_PHOTO \<and> txt \<noteq> QR_FREE_TEXT"

definition isColorPick :: "jsstring \<Rightarrow> bool" where
  "isColorPick txt \<longleftrightarrow> txt \<in> set COLOR_QR \<and> txt \<noteq> QR_FREE_TEXT"

text \<open>Line 220: the text of the message, or the empty string when it has none,
  trimmed.\<close>

definition text_of :: "jsstring option \<Rightarrow> jsstring" where
  "text_of text = js_trim (case text of None \<Rightarrow> [] | Some s \<Rightarrow> s)"

section \<open>Conversation state, events and the outside world\<close>

text \<open>The four strings that are ever assigned to \<^verbatim>\<open>step\<close>: \<^verbatim>\<open>'await_face'\<close>,
  \<^verbatim>\<open>'await_style'\<close>, \<^verbatim>\<open>'await_model_image'\<close> and \<^verbatim>\<open>'await_color'\<close>.\<close>

datatype step = AWAIT_FACE | AWAIT_STYLE | AWAIT_MODEL_IMAGE | AWAIT_COLOR

text \<open>
  One object of \<^verbatim>\<open>userState\<close>. A field that is \<^verbatim>\<open>null\<close> or (as \<^verbatim>\<open>modelB64\<close> in a fresh
  object) missing is \<open>None\<close>; the handler only ever tests these fields for truthiness,
  which \<^verbatim>\<open>null\<close>, \<^verbatim>\<open>undefined\<close> and the empty string all fail.
\<close>

record conv_state =
  step :: step
  faceB64 :: "string option"
  style :: "jsstring option"
  color :: "jsstring option"
  modelB64 :: "string option"

type_synonym user_table = "string \<rightharpoonup> conv_state"

definition truthy :: "'a list option \<Rightarrow> bool" where
  "truthy v = (case v of None \<Rightarrow> False | Some s \<Rightarrow> s \<noteq> [])"

definition fresh_state :: conv_state where
  "fresh_state = \<lparr>step = AWAIT_FACE, faceB64 = None, style = None, color = None,
     modelB64 = None\<rparr>"

text \<open>Line 179: the state object of a user is the stored one, or a fresh one.\<close>

definition current_state :: "user_table \<Rightarrow> string \<Rightarrow> conv_state" where
  "current_state us uid = (case us uid of None \<Rightarrow> fresh_state | Some s \<Rightarrow> s)"

text \<open>
  An outgoing message is a text with an optional quick reply (\<^verbatim>\<open>quickReply(items)\<close> of
  line 91 turns each label into one action carrying it as label and text, so the labels
  stand for the object), or an image with its two URLs.
\<close>

datatype out_message =
  TextMessage jsstring "jsstring list option"
| ImageMessage string string

text \<open>An incoming message by its \<^verbatim>\<open>type\<close>: an image with its id, a text (whose
  \<^verbatim>\<open>text\<close> may be missing), or any other type. An event, by its \<^verbatim>\<open>type\<close>, is a message
  or something else; \<open>userId\<close> is \<^verbatim>\<open>event.source.userId\<close>.\<close>

datatype in_message = Image string | Text "jsstring option" | OtherMessage

datatype event_kind = Message in_message | OtherEvent

record event =
  userId :: string
  replyToken :: string
  kind :: event_kind

datatype js_error = Error string | GeminiApiError nat | NoImageData

type_synonym api_response = string
type_synonym bytes = "8 word list"

text \<open>What \<^verbatim>\<open>callGeminiImageCompose\<close> is given; the prompt and the request body of
  lines 127-146 are functions of these four values.\<close>

record gemini_args =
  arg_faceB64 :: "string option"
  arg_modelB64 :: "string option"
  arg_style :: "jsstring option"
  arg_color :: "jsstring option"

text \<open>
  The response of \<^verbatim>\<open>fetch\<close>: \<^verbatim>\<open>resp.ok\<close>, \<^verbatim>\<open>resp.status\<close>, the outcome of \<^verbatim>\<open>resp.text()\<close>,
  and the outcome of \<^verbatim>\<open>resp.json()\<close> read through
  \<^verbatim>\<open>data?.candidates?.[0]?.content?.parts || []\<close>, each part given by its
  \<^verbatim>\<open>inline_data?.data\<close>.
\<close>

record http_response =
  resp_ok :: bool
  resp_status :: nat
  resp_text :: "js_error + string"
  resp_parts :: "js_error + string option list"

text \<open>The calls that leave the process, in the order they are made.\<close>

datatype action =
  ReplyCall string out_message
| PushCall string out_message
| Sleep nat
| GetContent string
| Sharp bytes
| GeminiFetch gemini_args
| WriteFile string string

text \<open>
  The outside world answers every such call. The answer of the platform client to a
  delivery may differ from one attempt to the next, so it depends on the attempt's number
  as well; within one event no delivery is asked for twice with the same message.
\<close>

record world =
  replyMessage :: "string \<Rightarrow> out_message \<Rightarrow> nat \<Rightarrow> js_error + api_response"
  pushMessage :: "string \<Rightarrow> out_message \<Rightarrow> nat \<Rightarrow> js_error + api_response"
  getMessageContent :: "string \<Rightarrow> js_error + bytes"
  sharp_pipeline :: "bytes \<Rightarrow> js_error + bytes"
  toBase64 :: "bytes \<Rightarrow> string"
  gemini_fetch :: "gemini_args \<Rightarrow> js_error + http_response"
  writeFile :: "string \<Rightarrow> string \<Rightarrow> js_error + unit"
  date_now :: string
  PUBLIC_BASE_URL :: string

text \<open>A computation with effects: the calls it made, and its value or the error it
  threw.\<close>

type_synonym 'a io = "action list \<times> (js_error + 'a)"

section \<open>The Messenger: reply and push\<close>

text \<open>
  The loop of lines 78-81 and 85-88, from the counter \<open>i\<close> on: \<open>call i\<close> is the answer
  of the platform client at this attempt and \<open>a\<close> the call it answers. Leaving the loop
  would return \<^verbatim>\<open>undefined\<close>, here \<open>None\<close>.
\<close>

function attempt_loop ::
  "(nat \<Rightarrow> js_error + api_response) \<Rightarrow> action \<Rightarrow> nat \<Rightarrow> api_response option io" where
  "attempt_loop call a i =
     (if i < 3 then
        (case call i of
           Inr r \<Rightarrow> ([a], Inr (Some r))
         | Inl e \<Rightarrow>
             if i = 2 then ([a], Inl e)
             else (let (tr, res) = attempt_loop call a (i + 1)
                   in (a # Sleep (250 * (i + 1)) # tr, res)))
      else ([], Inr None))"
  by pat_completeness auto
termination
  by (relation "measure (\<lambda>(call, a, i). 3 - i)") auto

definition reply :: "world \<Rightarrow> string \<Rightarrow> out_message \<Rightarrow> api_response option io" where
  "reply w token message = attempt_loop (replyMessage w token message) (ReplyCall token message) 0"

definition push :: "world \<Rightarrow> string \<Rightarrow> out_message \<Rightarrow> api_response option io" where
  "push w uid message = attempt_loop (pushMessage w uid message) (PushCall uid message) 0"

section \<open>Image retrieval, preprocessing, generation and the asset store\<close>

definition getImageBuffer :: "world \<Rightarrow> string \<Rightarrow> bytes io" where
  "getImageBuffer w messageId = ([GetContent messageId], getMessageContent w messageId)"

definition preprocessImage :: "world \<Rightarrow> bytes \<Rightarrow> bytes io" where
  "preprocessImage w buffer = ([Sharp buffer], sharp_pipeline w buffer)"

text \<open>Lines 126-168: one request, no retry; a response that is not ok and a response
  without an image part both throw.\<close>

definition callGeminiImageCompose :: "world \<Rightarrow> gemini_args \<Rightarrow> string io" where
  "callGeminiImageCompose w args =
     ([GeminiFetch args],
      (case gemini_fetch w args of
         Inl e \<Rightarrow> Inl e
       | Inr resp \<Rightarrow>
           if \<not> resp_ok resp then
             (case resp_text resp of
                Inl e \<Rightarrow> Inl e
              | Inr errText \<Rightarrow> Inl (GeminiApiError (resp_status resp)))
           else
             (case resp_parts resp of
                Inl e \<Rightarrow> Inl e
              | Inr parts \<Rightarrow>
                  (case List.find truthy parts of
                     Some (Some d) \<Rightarrow> Inr d
                   | _ \<Rightarrow> Inl NoImageData))))"

text \<open>Lines 110-115; \<open>date_now\<close> is \<^verbatim>\<open>Date.now()\<close> as the template literal prints it.\<close>

definition saveTempImage :: "world \<Rightarrow> string \<Rightarrow> string \<Rightarrow> string \<Rightarrow> string io" where
  "saveTempImage w b64 uid prefix =
     (let filename = prefix @ ''_'' @ uid @ ''_'' @ date_now w @ ''.jpg''
      in ([WriteFile filename b64],
          (case writeFile w filename b64 of
             Inl e \<Rightarrow> Inl e
           | Inr u \<Rightarrow> Inr (PUBLIC_BASE_URL w @ ''/tmp/'' @ filename))))"

section \<open>The main handler\<close>

text \<open>
  The handler returns the table of states as it leaves it, the calls it made, and the
  value or rejection of its promise (\<open>None\<close> is \<^verbatim>\<open>undefined\<close>). One event is followed
  from its start to its end; the table is the one this event sees.
\<close>

type_synonym outcome = "user_table \<times> action list \<times> (js_error + api_response option)"

text \<open>\<^verbatim>\<open>return reply(event.replyToken, message)\<close> after the calls \<open>pre\<close>, on the table
  \<open>us\<close>.\<close>

definition respond :: "world \<Rightarrow> event \<Rightarrow> user_table \<Rightarrow> action list \<Rightarrow> out_message \<Rightarrow> outcome" where
  "respond w ev us pre message =
     (let (t, r) = reply w (replyToken ev) message in (us, pre @ t, r))"

text \<open>Lines 185-216, on the state object \<open>st\<close> of the user. Within the one event
  that is followed, reading the object after the two awaited calls (line 189) is reading
  it before them.\<close>

definition handle_image :: "world \<Rightarrow> user_table \<Rightarrow> event \<Rightarrow> conv_state \<Rightarrow> string \<Rightarrow> outcome" where
  "handle_image w us ev st messageId =
     (case getImageBuffer w messageId of
        (t1, Inl e) \<Rightarrow> (us, t1, Inl e)
      | (t1, Inr buf) \<Rightarrow>
          (case preprocessImage w buf of
             (t2, Inl e) \<Rightarrow> (us, t1 @ t2, Inl e)
           | (t2, Inr pre) \<Rightarrow>
               (let b64 = toBase64 w pre in
                if step st = AWAIT_FACE \<or> \<not> truthy (faceB64 st) then
                  respond w ev (us(userId ev \<mapsto> st\<lparr>faceB64 := Some b64, step := AWAIT_STYLE\<rparr>))
                    (t1 @ t2) (TextMessage MSG_FACE_RECEIVED (Some STYLE_QR))
                else if step st = AWAIT_MODEL_IMAGE then
                  respond w ev (us(userId ev \<mapsto> st\<lparr>modelB64 := Some b64, step := AWAIT_COLOR\<rparr>))
                    (t1 @ t2) (TextMessage MSG_MODEL_RECEIVED (Some COLOR_QR))
                else
                  respond w ev (us(userId ev \<mapsto> st\<lparr>faceB64 := Some b64, step := AWAIT_STYLE\<rparr>))
                    (t1 @ t2) (TextMessage MSG_FACE_UPDATED (Some STYLE_QR)))))"

text \<open>The argument object of lines 262-267.\<close>

definition generation_args :: "conv_state \<Rightarrow> gemini_args" where
  "generation_args st =
     \<lparr>arg_faceB64 = faceB64 st,
      arg_modelB64 = (if truthy (modelB64 st) then modelB64 st else None),
      arg_style = style st, arg_color = color st\<rparr>"

text \<open>The body of the \<^verbatim>\<open>try\<close> block, lines 262-275: the state it leaves, its calls, and
  whether it threw.\<close>

definition try_generate :: "world \<Rightarrow> string \<Rightarrow> conv_state \<Rightarrow> conv_state \<times> unit io" where
  "try_generate w uid st =
     (case callGeminiImageCompose w (generation_args st) of
        (t1, Inl e) \<Rightarrow> (st, t1, Inl e)
      | (t1, Inr imgB64) \<Rightarrow>
          (case saveTempImage w imgB64 uid ''hair'' of
             (t2, Inl e) \<Rightarrow> (st, t1 @ t2, Inl e)
           | (t2, Inr url) \<Rightarrow>
               (case push w uid (ImageMessage url url) of
                  (t3, Inl e) \<Rightarrow> (st, t1 @ t2 @ t3, Inl e)
                | (t3, Inr r3) \<Rightarrow>
                    (case push w uid (TextMessage MSG_DONE (Some RESULT_QR)) of
                       (t4, Inl e) \<Rightarrow> (st, t1 @ t2 @ t3 @ t4, Inl e)
                     | (t4, Inr r4) \<Rightarrow>
                         (st\<lparr>step := AWAIT_STYLE, modelB64 := None, color := None\<rparr>,
                          t1 @ t2 @ t3 @ t4, Inr ())))))"

text \<open>Lines 219-299, on the state object \<open>st\<close> of the user.\<close>

definition handle_text :: "world \<Rightarrow> user_table \<Rightarrow> event \<Rightarrow> conv_state \<Rightarrow> jsstring option \<Rightarrow> outcome" where
  "handle_text w us ev st text =
     (let txt = text_of text;
          uid = userId ev
      in
      if is_greeting txt then
        respond w ev (us(uid \<mapsto> fresh_state)) [] (TextMessage MSG_GREETING None)
      else if regex_test RE_MODEL_PHOTO txt then
        respond w ev (us(uid \<mapsto> st\<lparr>step := AWAIT_MODEL_IMAGE\<rparr>)) []
          (TextMessage MSG_SEND_REFERENCE None)
      else
        (if txt = QR_FREE_TEXT then
           (if step st = AWAIT_STYLE \<or> \<not> truthy (style st) then
              respond w ev (us(uid \<mapsto> st\<lparr>step := AWAIT_STYLE\<rparr>)) []
                (TextMessage MSG_ENTER_STYLE None)
            else
              respond w ev (us(uid \<mapsto> st\<lparr>step := AWAIT_COLOR\<rparr>)) []
                (TextMessage MSG_ENTER_COLOR None))
         else if step st = AWAIT_STYLE then
           respond w ev
             (us(uid \<mapsto> st\<lparr>style := Some (if isStylePick txt then txt else txt), step := AWAIT_COLOR\<rparr>))
             [] (TextMessage MSG_ASK_COLOR (Some COLOR_QR))
         else if step st = AWAIT_COLOR then
           (let st1 = st\<lparr>color :=
                  Some (if isColorPick txt then (if txt = QR_KEEP then [] else txt) else txt)\<rparr>
            in
            if \<not> truthy (faceB64 st1) then
              respond w ev (us(uid \<mapsto> st1\<lparr>step := AWAIT_FACE\<rparr>)) []
                (TextMessage MSG_SELFIE_FIRST None)
            else
              (case reply w (replyToken ev) (TextMessage MSG_GENERATING None) of
                 (t1, Inl e) \<Rightarrow> (us(uid \<mapsto> st1), t1, Inl e)
               | (t1, Inr r1) \<Rightarrow>
                   (case try_generate w uid st1 of
                      (st2, t2, Inr u) \<Rightarrow> (us(uid \<mapsto> st2), t1 @ t2, Inr None)
                    | (st2, t2, Inl err) \<Rightarrow>
                        (case push w uid (TextMessage MSG_APOLOGY None) of
                           (t3, Inl e) \<Rightarrow> (us(uid \<mapsto> st2), t1 @ t2 @ t3, Inl e)
                         | (t3, Inr r3) \<Rightarrow> (us(uid \<mapsto> st2), t1 @ t2 @ t3, Inr None)))))
         else if txt = SC_TRY_AGAIN then
           respond w ev
             (us(uid \<mapsto> \<lparr>step = AWAIT_STYLE,
                          faceB64 = (if truthy (faceB64 st) then faceB64 st else None),
                          style = None, color = None, modelB64 = None\<rparr>))
             [] (TextMessage MSG_NEXT_STYLE (Some STYLE_QR))
         else if txt = SC_CHANGE_STYLE then
           respond w ev (us(uid \<mapsto> st\<lparr>step := AWAIT_STYLE, style := None, modelB64 := None\<rparr>))
             [] (TextMessage MSG_WHICH_STYLE (Some STYLE_QR))
         else if txt = SC_CHANGE_COLOR then
           respond w ev (us(uid \<mapsto> st\<lparr>step := AWAIT_COLOR\<rparr>)) []
             (TextMessage MSG_PICK_COLOR (Some COLOR_QR))
         else
           respond w ev us [] (TextMessage MSG_PHOTO_PROMPT None)))"

text \<open>Lines 177-302. Line 179 creates the user's state object when there is none.\<close>

definition handleEvent :: "world \<Rightarrow> user_table \<Rightarrow> event \<Rightarrow> outcome" where
  "handleEvent w userState ev =
     (let st = current_state userState (userId ev);
          us = userState(userId ev \<mapsto> st)
      in
      case kind ev of
        Message m \<Rightarrow>
          (case m of
             Image messageId \<Rightarrow> handle_image w us ev st messageId
           | Text text \<Rightarrow> handle_text w us ev st text
           | OtherMessage \<Rightarrow> (us, [], Inr None))
      | OtherEvent \<Rightarrow> (us, [], Inr None))"

text \<open>The parts of an outcome.\<close>

definition table_of :: "outcome \<Rightarrow> user_table" where
  "table_of out = fst out"

definition calls_of :: "outcome \<Rightarrow> action list" where
  "calls_of out = fst (snd out)"

definition result_of :: "outcome \<Rightarrow> js_error + api_response option" where
  "result_of out = snd (snd out)"

section \<open>Observations on the calls, and worlds to run the handler in\<close>

text \<open>A delivery attempt is one call of the platform client; the pauses of a run are
  the arguments of its \<^verbatim>\<open>sleep\<close> calls, in order.\<close>

fun is_delivery :: "action \<Rightarrow> bool" where
  "is_delivery (ReplyCall token m) = True"
| "is_delivery (PushCall uid m) = True"
| "is_delivery a = False"

definition attempts :: "action list \<Rightarrow> nat" where
  "attempts tr = length (filter is_delivery tr)"

fun delays :: "action list \<Rightarrow> nat list" where
  "delays [] = []"
| "delays (Sleep ms # tr) = ms # delays tr"
| "delays (a # tr) = delays tr"

fun is_generation :: "action \<Rightarrow> bool" where
  "is_generation (GeminiFetch args) = True"
| "is_generation a = False"

text \<open>A world in which every call succeeds.\<close>

definition world_ok :: world where
  "world_ok =
     \<lparr>replyMessage = (\<lambda>token m i. Inr ''{}''),
      pushMessage = (\<lambda>uid m i. Inr ''{}''),
      getMessageContent = (\<lambda>messageId. Inr [0xFF, 0xD8, 0xFF]),
      sharp_pipeline = (\<lambda>buffer. Inr buffer),
      toBase64 = (\<lambda>buffer. ''/9j/''),
      gemini_fetch = (\<lambda>args. Inr \<lparr>resp_ok = True, resp_status = 200, resp_text = Inr [],
         resp_parts = Inr [None, Some ''R0VO'']\<rparr>),
      writeFile = (\<lambda>file data. Inr ()),
      date_now = ''1700000000000'',
      PUBLIC_BASE_URL = ''https://bot.example''\<rparr>"

text \<open>The same world with the generation API answering 503, and with a platform
  client whose first attempt at every delivery fails.\<close>

definition world_gemini_down :: world where
  "world_gemini_down =
     world_ok\<lparr>gemini_fetch := (\<lambda>args. Inr \<lparr>resp_ok = False, resp_status = 503,
        resp_text = Inr ''unavailable'', resp_parts = Inr []\<rparr>)\<rparr>"

definition world_flaky :: world where
  "world_flaky =
     world_ok\<lparr>replyMessage := (\<lambda>token m i. if i = 0 then Inl (Error ''ETIMEDOUT'') else Inr ''{}''),
              pushMessage := (\<lambda>uid m i. if i = 0 then Inl (Error ''ETIMEDOUT'') else Inr ''{}'')\<rparr>"

text \<open>The same world with a platform client that refuses every delivery.\<close>

definition world_offline :: world where
  "world_offline =
     world_ok\<lparr>replyMessage := (\<lambda>token m i. Inl (Error ''ECONNRESET'')),
              pushMessage := (\<lambda>uid m i. Inl (Error ''ECONNRESET''))\<rparr>"

text \<open>A user, events of that user, and some states of the user; \<open>plain_text\<close> is
  the text \<^verbatim>\<open>abc\<close>.\<close>

definition plain_text :: jsstring where
  "plain_text = [0x0061, 0x0062, 0x0063]"

definition text_event :: "jsstring \<Rightarrow> event" where
  "text_event t = \<lparr>userId = ''U1'', replyToken = ''tok'', kind = Message (Text (Some t))\<rparr>"

definition image_event :: event where
  "image_event = \<lparr>userId = ''U1'', replyToken = ''tok'', kind = Message (Image ''m1'')\<rparr>"

definition state_at :: "step \<Rightarrow> string option \<Rightarrow> jsstring option \<Rightarrow> conv_state" where
  "state_at s face sty = \<lparr>step = s, faceB64 = face, style = sty, color = None, modelB64 = None\<rparr>"

definition table_with :: "conv_state \<Rightarrow> user_table" where
  "table_with st = [''U1'' \<mapsto> st]"

text \<open>
  The classification the specification uses for the fallback: a text that is not a
  greeting, not a quick-reply label or marker, and not a shortcut.
\<close>

definition unrecognized :: "jsstring \<Rightarrow> bool" where
  "unrecognized txt \<longleftrightarrow>
     \<not> is_greeting txt \<and> txt \<notin> set STYLE_QR \<and> txt \<notin> set COLOR_QR \<and> txt \<notin> set RESULT_QR"

section \<open>The retry loop\<close>

declare attempt_loop.simps [simp del]

lemma attempt_loop_2:
  "attempt_loop call a 2 =
     (case call 2 of Inr r \<Rightarrow> ([a], Inr (Some r)) | Inl e \<Rightarrow> ([a], Inl e))"
  by (subst attempt_loop.simps) (simp split: sum.splits)

lemma attempt_loop_1:
  "attempt_loop call a (Suc 0) =
     (case call (Suc 0) of Inr r \<Rightarrow> ([a], Inr (Some r))
      | Inl e \<Rightarrow> (a # Sleep 500 # fst (attempt_loop call a 2), snd (attempt_loop call a 2)))"
  by (subst attempt_loop.simps) (simp split: sum.splits prod.splits add: numeral_2_eq_2)

lemma attempt_loop_0:
  "attempt_loop call a 0 =
     (case call 0 of Inr r \<Rightarrow> ([a], Inr (Some r))
      | Inl e \<Rightarrow> (a # Sleep 250 # fst (attempt_loop call a (Suc 0)), snd (attempt_loop call a (Suc 0))))"
  by (subst attempt_loop.simps) (simp split: sum.splits prod.splits)

lemma attempt_loop_unfolded:
  "attempt_loop call a 0 =
     (case call 0 of Inr r \<Rightarrow> ([a], Inr (Some r))
      | Inl e0 \<Rightarrow> (case call 1 of Inr r \<Rightarrow> ([a, Sleep 250, a], Inr (Some r))
         | Inl e1 \<Rightarrow> (case call 2 of Inr r \<Rightarrow> ([a, Sleep 250, a, Sleep 500, a], Inr (Some r))
             | Inl e2 \<Rightarrow> ([a, Sleep 250, a, Sleep 500, a], Inl e2))))"
  by (simp add: attempt_loop_0 attempt_loop_1 attempt_loop_2 split: sum.splits)

lemma attempts_simps:
  "is_delivery a \<Longrightarrow> attempts [a] = 1"
  "is_delivery a \<Longrightarrow> attempts [a, Sleep m, a] = 2"
  "is_delivery a \<Longrightarrow> attempts [a, Sleep m, a, Sleep n, a] = 3"
  by (simp_all add: attempts_def)

lemma delays_simps:
  "is_delivery a \<Longrightarrow> delays [a] = []"
  "is_delivery a \<Longrightarrow> delays [a, Sleep m, a] = [m]"
  "is_delivery a \<Longrightarrow> delays [a, Sleep m, a, Sleep n, a] = [m, n]"
  by (cases a; simp)+

lemma attempt_loop_shape:
  "fst (attempt_loop call a 0) \<in> {[a], [a, Sleep 250, a], [a, Sleep 250, a, Sleep 500, a]}"
  by (simp add: attempt_loop_unfolded split: sum.splits)

lemma attempt_loop_attempts:
  assumes "is_delivery a"
  shows "attempts (fst (attempt_loop call a 0)) \<le> 3"
    and "length (delays (fst (attempt_loop call a 0))) = attempts (fst (attempt_loop call a 0)) - 1"
    and "sorted_wrt (<) (delays (fst (attempt_loop call a 0)))"
  using attempt_loop_shape [of call a] assms
  by (auto simp: attempts_simps delays_simps)

lemma attempt_loop_first_success:
  assumes "is_delivery a" and "k < 3" and "\<forall>j<k. isl (call j)" and "call k = Inr r"
  shows "attempts (fst (attempt_loop call a 0)) = k + 1"
    and "snd (attempt_loop call a 0) = Inr (Some r)"
proof -
  from \<open>k < 3\<close> consider "k = 0" | "k = Suc 0" | "k = 2" by linarith
  then have "attempts (fst (attempt_loop call a 0)) = k + 1 \<and>
      snd (attempt_loop call a 0) = Inr (Some r)"
  proof cases
    case 1
    with assms show ?thesis
      by (simp add: attempt_loop_unfolded attempts_simps)
  next
    case 2
    with assms have "isl (call 0)" "call 1 = Inr r" by simp_all
    with assms(1) 2 show ?thesis
      by (cases "call 0") (simp_all add: attempt_loop_unfolded attempts_simps)
  next
    case 3
    with assms have "isl (call 0)" "isl (call 1)" "call 2 = Inr r" by simp_all
    with assms(1) 3 show ?thesis
      by (cases "call 0"; cases "call 1") (simp_all add: attempt_loop_unfolded attempts_simps)
  qed
  then show "attempts (fst (attempt_loop call a 0)) = k + 1"
    and "snd (attempt_loop call a 0) = Inr (Some r)" by simp_all
qed

lemma attempt_loop_exhausted:
  assumes "is_delivery a" and "isl (call 0)" and "isl (call 1)" and "call 2 = Inl e"
  shows "attempts (fst (attempt_loop call a 0)) = 3"
    and "snd (attempt_loop call a 0) = Inl e"
  using assms
  by (cases "call 0"; cases "call 1"; simp add: attempt_loop_unfolded attempts_simps)+

lemma reply_first: "\<exists>tr. fst (reply w tok m) = ReplyCall tok m # tr"
  using attempt_loop_shape [of "replyMessage w tok m" "ReplyCall tok m"]
  by (auto simp: reply_def)

lemma reply_no_generation: "\<forall>a \<in> set (fst (reply w tok m)). \<not> is_generation a"
  using attempt_loop_shape [of "replyMessage w tok m" "ReplyCall tok m"]
  by (auto simp: reply_def)

text \<open>
  Claim C8. Reply-to-event and push-to-user each make at most three delivery attempts,
  with a pause of 250 ms after the first failure and of 500 ms after the second, and
  nothing else; the platform's answer to the first successful attempt is returned, and
  when the third attempt fails too its error is thrown to the caller.
\<close>

theorem messenger_bounded_retry:
  assumes "(run, call, a) \<in>
     {(reply w token m, replyMessage w token m, ReplyCall token m),
      (push w uid m', pushMessage w uid m', PushCall uid m')}"
  shows "fst run \<in> {[a], [a, Sleep 250, a], [a, Sleep 250, a, Sleep 500, a]} \<and>
         attempts (fst run) \<le> 3 \<and>
         length (delays (fst run)) = attempts (fst run) - 1 \<and>
         sorted_wrt (<) (delays (fst run)) \<and>
         (\<forall>k r. k < 3 \<and> (\<forall>j<k. isl (call j)) \<and> call k = Inr r \<longrightarrow>
            attempts (fst run) = k + 1 \<and> snd run = Inr (Some r)) \<and>
         (\<forall>e. isl (call 0) \<and> isl (call 1) \<and> call 2 = Inl e \<longrightarrow>
            attempts (fst run) = 3 \<and> snd run = Inl e)"
proof -
  from assms have run: "run = attempt_loop call a 0" and a: "is_delivery a"
    by (auto simp: reply_def push_def)
  have "fst run \<in> {[a], [a, Sleep 250, a], [a, Sleep 250, a, Sleep 500, a]}"
    unfolding run by (rule attempt_loop_shape)
  moreover have "attempts (fst run) \<le> 3"
    and "length (delays (fst run)) = attempts (fst run) - 1"
    and "sorted_wrt (<) (delays (fst run))"
    unfolding run by (rule attempt_loop_attempts [OF a])+
  moreover have "\<forall>k r. k < 3 \<and> (\<forall>j<k. isl (call j)) \<and> call k = Inr r \<longrightarrow>
           attempts (fst run) = k + 1 \<and> snd run = Inr (Some r)"
    unfolding run using attempt_loop_first_success [OF a] by blast
  moreover have "\<forall>e. isl (call 0) \<and> isl (call 1) \<and> call 2 = Inl e \<longrightarrow>
           attempts (fst run) = 3 \<and> snd run = Inl e"
    unfolding run using attempt_loop_exhausted [OF a] by blast
  ultimately show ?thesis by blast
qed

text \<open>
  A push whose first attempt fails and whose second succeeds, and a reply all of whose
  attempts fail.
\<close>

theorem messenger_bounded_retry_witness:
  "isl (pushMessage world_flaky ''U1'' (TextMessage MSG_APOLOGY None) 0) \<and>
   pushMessage world_flaky ''U1'' (TextMessage MSG_APOLOGY None) 1 = Inr ''{}'' \<and>
   attempts (fst (push world_flaky ''U1'' (TextMessage MSG_APOLOGY None))) = 2 \<and>
   snd (push world_flaky ''U1'' (TextMessage MSG_APOLOGY None)) = Inr (Some ''{}'') \<and>
   delays (fst (push world_flaky ''U1'' (TextMessage MSG_APOLOGY None))) = [250] \<and>
   isl (replyMessage world_offline ''tok'' (TextMessage MSG_GREETING None) 0) \<and>
   isl (replyMessage world_offline ''tok'' (TextMessage MSG_GREETING None) 1) \<and>
   replyMessage world_offline ''tok'' (TextMessage MSG_GREETING None) 2 =
     Inl (Error ''ECONNRESET'') \<and>
   attempts (fst (reply world_offline ''tok'' (TextMessage MSG_GREETING None))) = 3 \<and>
   snd (reply world_offline ''tok'' (TextMessage MSG_GREETING None)) = Inl (Error ''ECONNRESET'') \<and>
   delays (fst (reply world_offline ''tok'' (TextMessage MSG_GREETING None))) = [250, 500]"
proof -
  let ?m = "TextMessage MSG_APOLOGY None"
  let ?run = "push world_flaky ''U1'' ?m"
  let ?call = "pushMessage world_flaky ''U1'' ?m"
  let ?a = "PushCall ''U1'' ?m"
  let ?m' = "TextMessage MSG_GREETING None"
  let ?run' = "reply world_offline ''tok'' ?m'"
  let ?call' = "replyMessage world_offline ''tok'' ?m'"
  let ?a' = "ReplyCall ''tok'' ?m'"
  have mem: "(?run, ?call, ?a) \<in>
     {(reply world_flaky ''tok'' ?m, replyMessage world_flaky ''tok'' ?m, ReplyCall ''tok'' ?m),
      (?run, ?call, ?a)}"
    by simp
  have mem': "(?run', ?call', ?a') \<in>
     {(?run', ?call', ?a'),
      (push world_offline ''U1'' ?m', pushMessage world_offline ''U1'' ?m', PushCall ''U1'' ?m')}"
    by simp
  have c0: "isl (?call 0)" and c1: "?call 1 = Inr ''{}''"
    by (simp_all add: world_flaky_def world_ok_def)
  have d0: "isl (?call' 0)" and d1: "isl (?call' 1)" and d2: "?call' 2 = Inl (Error ''ECONNRESET'')"
    by (simp_all add: world_offline_def world_ok_def)
  note inst = messenger_bounded_retry [OF mem]
  note inst' = messenger_bounded_retry [OF mem']
  from inst have "1 < (3::nat) \<and> (\<forall>j<1. isl (?call j)) \<and> ?call 1 = Inr ''{}'' \<longrightarrow>
      attempts (fst ?run) = 1 + 1 \<and> snd ?run = Inr (Some ''{}'')"
    by blast
  with c0 c1 have res: "attempts (fst ?run) = 2 \<and> snd ?run = Inr (Some ''{}'')"
    by simp
  from inst have "fst ?run \<in> {[?a], [?a, Sleep 250, ?a], [?a, Sleep 250, ?a, Sleep 500, ?a]}"
    by blast
  with res have del: "delays (fst ?run) = [250]"
    by (auto simp: attempts_def)
  from inst' have "isl (?call' 0) \<and> isl (?call' 1) \<and> ?call' 2 = Inl (Error ''ECONNRESET'') \<longrightarrow>
      attempts (fst ?run') = 3 \<and> snd ?run' = Inl (Error ''ECONNRESET'')"
    by blast
  with d0 d1 d2 have res': "attempts (fst ?run') = 3 \<and> snd ?run' = Inl (Error ''ECONNRESET'')"
    by simp
  from inst' have "fst ?run' \<in>
      {[?a'], [?a', Sleep 250, ?a'], [?a', Sleep 250, ?a', Sleep 500, ?a']}"
    by blast
  with res' have del': "delays (fst ?run') = [250, 500]"
    by (auto simp: attempts_def)
  from res del res' del' c0 c1 d0 d1 d2 show ?thesis by simp
qed

section \<open>Substring search and trimming\<close>

lemma has_prefix_iff: "has_prefix p s \<longleftrightarrow> (\<exists>ys. s = p @ ys)"
  by (induction p s rule: has_prefix.induct) auto

lemma regex_test_iff: "regex_test p s \<longleftrightarrow> (\<exists>xs ys. s = xs @ p @ ys)"
proof (induction s)
  case Nil
  then show ?case by (simp add: has_prefix_iff)
next
  case (Cons c cs)
  show ?case
  proof
    assume "regex_test p (c # cs)"
    then consider "has_prefix p (c # cs)" | "regex_test p cs" by auto
    then show "\<exists>xs ys. c # cs = xs @ p @ ys"
    proof cases
      case 1
      then obtain ys where "c # cs = p @ ys" by (auto simp: has_prefix_iff)
      then have "c # cs = [] @ p @ ys" by simp
      then show ?thesis by blast
    next
      case 2
      with Cons.IH obtain xs ys where "cs = xs @ p @ ys" by blast
      then have "c # cs = (c # xs) @ p @ ys" by simp
      then show ?thesis by blast
    qed
  next
    assume "\<exists>xs ys. c # cs = xs @ p @ ys"
    then obtain xs ys where eq: "c # cs = xs @ p @ ys" by blast
    show "regex_test p (c # cs)"
    proof (cases xs)
      case Nil
      with eq have "has_prefix p (c # cs)" by (auto simp: has_prefix_iff)
      then show ?thesis by simp
    next
      case (Cons x xs')
      with eq have "cs = xs' @ p @ ys" by simp
      with Cons.IH have "regex_test p cs" by blast
      then show ?thesis by simp
    qed
  qed
qed

lemma dropWhile_keeps_infix:
  assumes "p \<noteq> []" and "\<not> P (hd p)"
  shows "\<exists>xs'. dropWhile P (xs @ p @ ys) = xs' @ p @ ys"
proof (induction xs)
  case Nil
  from assms obtain c cs where "p = c # cs" "\<not> P c" by (cases p) auto
  then have "dropWhile P ([] @ p @ ys) = [] @ p @ ys" by simp
  then show ?case by blast
next
  case (Cons x xs)
  show ?case
  proof (cases "P x")
    case True
    with Cons.IH show ?thesis by simp
  next
    case False
    then have "dropWhile P ((x # xs) @ p @ ys) = (x # xs) @ p @ ys" by simp
    then show ?thesis by blast
  qed
qed

lemma regex_test_trim:
  assumes "p \<noteq> []" and "\<not> is_js_space (hd p)" and "\<not> is_js_space (last p)"
    and "regex_test p s"
  shows "regex_test p (js_trim s)"
proof -
  from assms(4) obtain xs ys where "s = xs @ p @ ys" by (auto simp: regex_test_iff)
  with dropWhile_keeps_infix [where P = is_js_space and p = p, OF assms(1,2)]
  obtain xs' where 1: "dropWhile is_js_space s = xs' @ p @ ys" by blast
  have "rev p \<noteq> []" and "\<not> is_js_space (hd (rev p))"
    using assms(1,3) by (simp_all add: hd_rev)
  from dropWhile_keeps_infix [where P = is_js_space and p = "rev p" and xs = "rev ys"
      and ys = "rev xs'", OF this]
  obtain ys' where "dropWhile is_js_space (rev ys @ rev p @ rev xs') = ys' @ rev p @ rev xs'"
    by blast
  with 1 have "js_trim s = xs' @ p @ rev ys'"
    by (simp add: js_trim_def)
  then show ?thesis by (auto simp: regex_test_iff)
qed

lemma model_photo_survives_trim:
  "regex_test RE_MODEL_PHOTO s \<Longrightarrow> regex_test RE_MODEL_PHOTO (text_of (Some s))"
  unfolding text_of_def option.case
  by (rule regex_test_trim) (simp_all add: RE_MODEL_PHOTO_def is_js_space_def)

section \<open>The handler, branch by branch\<close>

lemma respond_parts [simp]:
  "table_of (respond w ev us pre m) = us"
  "calls_of (respond w ev us pre m) = pre @ fst (reply w (replyToken ev) m)"
  "result_of (respond w ev us pre m) = snd (reply w (replyToken ev) m)"
  by (simp_all add: respond_def table_of_def calls_of_def result_of_def split: prod.splits)

lemma outcome_parts [simp]:
  "table_of (us, tr, r) = us"
  "calls_of (us, tr, r) = tr"
  "result_of (us, tr, r) = r"
  by (simp_all add: table_of_def calls_of_def result_of_def)

lemma handleEvent_text:
  "kind ev = Message (Text text) \<Longrightarrow>
   handleEvent w us ev =
     handle_text w (us(userId ev \<mapsto> current_state us (userId ev))) ev
       (current_state us (userId ev)) text"
  by (simp add: handleEvent_def Let_def)

lemma handleEvent_image:
  "kind ev = Message (Image messageId) \<Longrightarrow>
   handleEvent w us ev =
     handle_image w (us(userId ev \<mapsto> current_state us (userId ev))) ev
       (current_state us (userId ev)) messageId"
  by (simp add: handleEvent_def Let_def)

lemma current_state_upd [simp]: "current_state (us(uid \<mapsto> st)) uid = st"
  by (simp add: current_state_def)

lemma color_pick_value:
  "(if isColorPick txt then (if txt = QR_KEEP then [] else txt) else txt) =
   (if txt = QR_KEEP then [] else txt)"
  by (simp add: isColorPick_def COLOR_QR_def QR_KEEP_def QR_FREE_TEXT_def)

text \<open>The generation branch, lines 252-281, once the text has reached it.\<close>

lemma handle_text_await_color:
  assumes "txt = text_of text"
    and "\<not> is_greeting txt"
    and "\<not> regex_test RE_MODEL_PHOTO txt"
    and "txt \<noteq> QR_FREE_TEXT"
    and "step st = AWAIT_COLOR"
    and "st1 = st\<lparr>color := Some (if txt = QR_KEEP then [] else txt)\<rparr>"
  shows "handle_text w us ev st text =
     (if \<not> truthy (faceB64 st) then
        respond w ev (us(userId ev \<mapsto> st1\<lparr>step := AWAIT_FACE\<rparr>)) []
          (TextMessage MSG_SELFIE_FIRST None)
      else
        (case reply w (replyToken ev) (TextMessage MSG_GENERATING None) of
           (t1, Inl e) \<Rightarrow> (us(userId ev \<mapsto> st1), t1, Inl e)
         | (t1, Inr r1) \<Rightarrow>
             (case try_generate w (userId ev) st1 of
                (st2, t2, Inr u) \<Rightarrow> (us(userId ev \<mapsto> st2), t1 @ t2, Inr None)
              | (st2, t2, Inl err) \<Rightarrow>
                  (case push w (userId ev) (TextMessage MSG_APOLOGY None) of
                     (t3, Inl e) \<Rightarrow> (us(userId ev \<mapsto> st2), t1 @ t2 @ t3, Inl e)
                   | (t3, Inr r3) \<Rightarrow> (us(userId ev \<mapsto> st2), t1 @ t2 @ t3, Inr None)))))"
  using assms(2-5) unfolding assms(1) assms(6)
  by (simp add: handle_text_def Let_def color_pick_value)

lemma gemini_calls: "fst (callGeminiImageCompose w args) = [GeminiFetch args]"
  by (simp add: callGeminiImageCompose_def)

lemma try_generate_failure:
  assumes "snd (callGeminiImageCompose w (generation_args st)) = Inl e"
  shows "try_generate w uid st = (st, [GeminiFetch (generation_args st)], Inl e)"
proof -
  from assms gemini_calls [of w "generation_args st"]
  have "callGeminiImageCompose w (generation_args st) = ([GeminiFetch (generation_args st)], Inl e)"
    by (metis prod.collapse)
  then show ?thesis by (simp add: try_generate_def)
qed

lemma try_generate_success:
  assumes "snd (callGeminiImageCompose w (generation_args st)) = Inr img"
    and "snd (saveTempImage w img uid ''hair'') = Inr url"
    and "snd (push w uid (ImageMessage url url)) = Inr r3"
    and "snd (push w uid (TextMessage MSG_DONE (Some RESULT_QR))) = Inr r4"
  shows "try_generate w uid st =
     (st\<lparr>step := AWAIT_STYLE, modelB64 := None, color := None\<rparr>,
      fst (callGeminiImageCompose w (generation_args st)) @
      fst (saveTempImage w img uid ''hair'') @
      fst (push w uid (ImageMessage url url)) @
      fst (push w uid (TextMessage MSG_DONE (Some RESULT_QR))), Inr ())"
  using assms
  by (cases "callGeminiImageCompose w (generation_args st)";
      cases "saveTempImage w img uid ''hair''";
      cases "push w uid (ImageMessage url url)";
      cases "push w uid (TextMessage MSG_DONE (Some RESULT_QR))")
     (simp add: try_generate_def)

lemmas greeting_defs = is_greeting_def matches_ci_def canonicalize_def GREET_KONNICHIWA_def
  GREET_KONCHIWA_def GREET_YAA_def GREET_HI_def GREET_HELLO_def

lemmas trim_defs = text_of_def js_trim_def is_js_space_def

lemma marker_plain:
  "text_of (Some QR_FREE_TEXT) = QR_FREE_TEXT"
  "\<not> is_greeting QR_FREE_TEXT"
  "\<not> regex_test RE_MODEL_PHOTO QR_FREE_TEXT"
  by (simp_all add: trim_defs greeting_defs RE_MODEL_PHOTO_def QR_FREE_TEXT_def)

lemma try_again_plain:
  "text_of (Some SC_TRY_AGAIN) = SC_TRY_AGAIN"
  "\<not> is_greeting SC_TRY_AGAIN"
  "\<not> regex_test RE_MODEL_PHOTO SC_TRY_AGAIN"
  "SC_TRY_AGAIN \<noteq> QR_FREE_TEXT"
  by (simp_all add: trim_defs greeting_defs RE_MODEL_PHOTO_def QR_FREE_TEXT_def SC_TRY_AGAIN_def)

lemma keep_plain:
  "text_of (Some QR_KEEP) = QR_KEEP"
  "\<not> is_greeting QR_KEEP"
  "\<not> regex_test RE_MODEL_PHOTO QR_KEEP"
  "QR_KEEP \<noteq> QR_FREE_TEXT"
  by (simp_all add: trim_defs greeting_defs RE_MODEL_PHOTO_def QR_FREE_TEXT_def QR_KEEP_def)

lemma black_plain:
  "text_of (Some QR_BLACK) = QR_BLACK"
  "\<not> is_greeting QR_BLACK"
  "\<not> regex_test RE_MODEL_PHOTO QR_BLACK"
  "QR_BLACK \<noteq> QR_FREE_TEXT"
  "QR_BLACK \<noteq> QR_KEEP"
  by (simp_all add: trim_defs greeting_defs RE_MODEL_PHOTO_def QR_FREE_TEXT_def QR_BLACK_def
      QR_KEEP_def)

lemma send_model_photo_plain:
  "text_of (Some QR_SEND_MODEL_PHOTO) = QR_SEND_MODEL_PHOTO"
  "\<not> is_greeting QR_SEND_MODEL_PHOTO"
  "regex_test RE_MODEL_PHOTO QR_SEND_MODEL_PHOTO"
  by (simp_all add: trim_defs greeting_defs RE_MODEL_PHOTO_def QR_SEND_MODEL_PHOTO_def)

lemma plain_text_plain:
  "text_of (Some plain_text) = plain_text"
  "\<not> is_greeting plain_text"
  "\<not> regex_test RE_MODEL_PHOTO plain_text"
  "plain_text \<noteq> QR_FREE_TEXT"
  "plain_text \<notin> set STYLE_QR"
  "plain_text \<notin> set COLOR_QR"
  "plain_text \<notin> set RESULT_QR"
  by (simp_all add: trim_defs greeting_defs RE_MODEL_PHOTO_def QR_FREE_TEXT_def plain_text_def
      STYLE_QR_def COLOR_QR_def RESULT_QR_def QR_SHORT_def QR_BOB_def QR_MEDIUM_def QR_LONG_def
      QR_WOLF_def QR_MENS_def QR_SEND_MODEL_PHOTO_def QR_KEEP_def QR_BLACK_def QR_MILKTEA_def
      QR_PINKBEIGE_def QR_GREIGE_def SC_TRY_AGAIN_def SC_CHANGE_STYLE_def SC_CHANGE_COLOR_def)

lemma example_parts [simp]:
  "current_state (table_with st) ''U1'' = st"
  "current_state Map.empty uid = fresh_state"
  "userId (text_event t) = ''U1''"
  "replyToken (text_event t) = ''tok''"
  "kind (text_event t) = Message (Text (Some t))"
  "userId image_event = ''U1''"
  "replyToken image_event = ''tok''"
  "kind image_event = Message (Image ''m1'')"
  "(table_with st)(''U1'' \<mapsto> st') = table_with st'"
  "Map.empty(''U1'' \<mapsto> st') = table_with st'"
  by (simp_all add: current_state_def table_with_def text_event_def image_event_def)

lemma reply_ok [simp]: "reply world_ok tok m = ([ReplyCall tok m], Inr (Some ''{}''))"
  by (simp add: reply_def attempt_loop_unfolded world_ok_def)

lemma push_ok [simp]: "push world_ok uid m = ([PushCall uid m], Inr (Some ''{}''))"
  by (simp add: push_def attempt_loop_unfolded world_ok_def)

lemma reply_gemini_down [simp]:
  "reply world_gemini_down tok m = ([ReplyCall tok m], Inr (Some ''{}''))"
  by (simp add: reply_def attempt_loop_unfolded world_gemini_down_def world_ok_def)

lemma push_gemini_down [simp]:
  "push world_gemini_down uid m = ([PushCall uid m], Inr (Some ''{}''))"
  by (simp add: push_def attempt_loop_unfolded world_gemini_down_def world_ok_def)

text \<open>
  Claim C9. In every conversation state (a user without a state, a user in
  \<open>AWAIT_FACE\<close> without a face image and a user in \<open>AWAIT_COLOR\<close> included), a text that
  is not a greeting and contains the "model photo" substring sets the step to
  \<open>AWAIT_MODEL_IMAGE\<close>, changes nothing else, and is answered by the reference-photo
  prompt and by nothing else.
\<close>

theorem model_photo_reachable_from_every_step:
  assumes "kind ev = Message (Text (Some s))"
    and "st = current_state us (userId ev)"
    and "\<not> is_greeting (text_of (Some s))"
    and "regex_test RE_MODEL_PHOTO s"
  shows "table_of (handleEvent w us ev) = us(userId ev \<mapsto> st\<lparr>step := AWAIT_MODEL_IMAGE\<rparr>) \<and>
         step (current_state (table_of (handleEvent w us ev)) (userId ev)) = AWAIT_MODEL_IMAGE \<and>
         calls_of (handleEvent w us ev) =
           fst (reply w (replyToken ev) (TextMessage MSG_SEND_REFERENCE None)) \<and>
         result_of (handleEvent w us ev) =
           snd (reply w (replyToken ev) (TextMessage MSG_SEND_REFERENCE None))"
  using assms model_photo_survives_trim [of s]
  by (simp add: handleEvent_text handle_text_def Let_def)

theorem model_photo_reachable_from_every_step_witness:
  "kind (text_event QR_SEND_MODEL_PHOTO) = Message (Text (Some QR_SEND_MODEL_PHOTO)) \<and>
   \<not> is_greeting (text_of (Some QR_SEND_MODEL_PHOTO)) \<and>
   regex_test RE_MODEL_PHOTO QR_SEND_MODEL_PHOTO \<and>
   step (current_state Map.empty ''U1'') = AWAIT_FACE \<and>
   faceB64 (current_state Map.empty ''U1'') = None \<and>
   table_of (handleEvent world_ok Map.empty (text_event QR_SEND_MODEL_PHOTO)) =
     table_with (fresh_state\<lparr>step := AWAIT_MODEL_IMAGE\<rparr>) \<and>
   calls_of (handleEvent world_ok Map.empty (text_event QR_SEND_MODEL_PHOTO)) =
     [ReplyCall ''tok'' (TextMessage MSG_SEND_REFERENCE None)] \<and>
   table_of (handleEvent world_ok (table_with (state_at AWAIT_COLOR None None))
       (text_event QR_SEND_MODEL_PHOTO)) =
     table_with (state_at AWAIT_MODEL_IMAGE None None)"
proof -
  have k: "kind (text_event QR_SEND_MODEL_PHOTO) = Message (Text (Some QR_SEND_MODEL_PHOTO))"
    by simp
  have g: "\<not> is_greeting (text_of (Some QR_SEND_MODEL_PHOTO))"
    by (simp add: send_model_photo_plain)
  have r: "regex_test RE_MODEL_PHOTO QR_SEND_MODEL_PHOTO"
    by (simp add: RE_MODEL_PHOTO_def QR_SEND_MODEL_PHOTO_def)
  note i1 = model_photo_reachable_from_every_step [where w = world_ok and us = Map.empty,
      OF k refl g r]
  note i2 = model_photo_reachable_from_every_step [where w = world_ok
      and us = "table_with (state_at AWAIT_COLOR None None)", OF k refl g r, THEN conjunct1]
  from i1 [THEN conjunct1]
  have c1: "table_of (handleEvent world_ok Map.empty (text_event QR_SEND_MODEL_PHOTO)) =
      table_with (fresh_state\<lparr>step := AWAIT_MODEL_IMAGE\<rparr>)"
    by simp
  from i1 [THEN conjunct2, THEN conjunct2, THEN conjunct1]
  have c2: "calls_of (handleEvent world_ok Map.empty (text_event QR_SEND_MODEL_PHOTO)) =
      [ReplyCall ''tok'' (TextMessage MSG_SEND_REFERENCE None)]"
    by simp
  from i2
  have c3: "table_of (handleEvent world_ok (table_with (state_at AWAIT_COLOR None None))
      (text_event QR_SEND_MODEL_PHOTO)) = table_with (state_at AWAIT_MODEL_IMAGE None None)"
    by (simp add: state_at_def)
  have s: "step (current_state Map.empty ''U1'') = AWAIT_FACE"
    and f: "faceB64 (current_state Map.empty ''U1'') = None"
    by (simp_all add: fresh_state_def)
  from k g r s f c1 c2 c3 show ?thesis by (intro conjI)
qed

text \<open>
  Claim C4. A text that reaches the generation trigger (it is no greeting, does
  not contain the "model photo" substring and is not the free-text marker) in step
  \<open>AWAIT_COLOR\<close> while the face image is absent sets the step to \<open>AWAIT_FACE\<close>, is
  answered by the prompt to send a selfie first, and makes no call of the generation
  API.
\<close>

theorem missing_face_redirects_without_generation:
  assumes "kind ev = Message (Text text)"
    and "txt = text_of text"
    and "st = current_state us (userId ev)"
    and "\<not> is_greeting txt"
    and "\<not> regex_test RE_MODEL_PHOTO txt"
    and "txt \<noteq> QR_FREE_TEXT"
    and "step st = AWAIT_COLOR"
    and "\<not> truthy (faceB64 st)"
  shows "step (current_state (table_of (handleEvent w us ev)) (userId ev)) = AWAIT_FACE \<and>
         calls_of (handleEvent w us ev) =
           fst (reply w (replyToken ev) (TextMessage MSG_SELFIE_FIRST None)) \<and>
         result_of (handleEvent w us ev) =
           snd (reply w (replyToken ev) (TextMessage MSG_SELFIE_FIRST None)) \<and>
         (\<forall>a \<in> set (calls_of (handleEvent w us ev)). \<not> is_generation a)"
  using assms reply_no_generation
  by (simp add: handleEvent_text handle_text_await_color [OF refl _ _ _ _ refl])

theorem missing_face_redirects_without_generation_witness:
  "kind (text_event QR_BLACK) = Message (Text (Some QR_BLACK)) \<and>
   \<not> is_greeting (text_of (Some QR_BLACK)) \<and>
   \<not> regex_test RE_MODEL_PHOTO (text_of (Some QR_BLACK)) \<and>
   text_of (Some QR_BLACK) \<noteq> QR_FREE_TEXT \<and>
   step (current_state (table_with (state_at AWAIT_COLOR None (Some QR_BOB))) ''U1'') = AWAIT_COLOR \<and>
   \<not> truthy (faceB64 (current_state (table_with (state_at AWAIT_COLOR None (Some QR_BOB))) ''U1'')) \<and>
   step (current_state (table_of (handleEvent world_ok
       (table_with (state_at AWAIT_COLOR None (Some QR_BOB))) (text_event QR_BLACK))) ''U1'') =
     AWAIT_FACE \<and>
   calls_of (handleEvent world_ok (table_with (state_at AWAIT_COLOR None (Some QR_BOB)))
       (text_event QR_BLACK)) =
     [ReplyCall ''tok'' (TextMessage MSG_SELFIE_FIRST None)]"
proof -
  let ?us = "table_with (state_at AWAIT_COLOR None (Some QR_BOB))"
  have k: "kind (text_event QR_BLACK) = Message (Text (Some QR_BLACK))"
    by simp
  have g: "\<not> is_greeting (text_of (Some QR_BLACK))"
    and r: "\<not> regex_test RE_MODEL_PHOTO (text_of (Some QR_BLACK))"
    and m: "text_of (Some QR_BLACK) \<noteq> QR_FREE_TEXT"
    by (simp_all add: black_plain)
  have s: "step (current_state ?us (userId (text_event QR_BLACK))) = AWAIT_COLOR"
    and f: "\<not> truthy (faceB64 (current_state ?us (userId (text_event QR_BLACK))))"
    by (simp_all add: state_at_def truthy_def)
  from missing_face_redirects_without_generation [OF k refl refl g r m s f, of world_ok]
  show ?thesis using k g r m s f by simp
qed

lemma reply_no_push: "PushCall u m' \<notin> set (fst (reply w tok m))"
  using attempt_loop_shape [of "replyMessage w tok m" "ReplyCall tok m"]
  by (auto simp: reply_def)

lemma push_only_own: "PushCall u m' \<in> set (fst (push w uid m)) \<Longrightarrow> u = uid \<and> m' = m"
  using attempt_loop_shape [of "pushMessage w uid m" "PushCall uid m"]
  by (auto simp: push_def)

text \<open>
  Claim C10. When such a text arrives in step \<open>AWAIT_COLOR\<close> while the face
  image is absent, the colour taken from the text (the empty string for "as it is", the
  text itself otherwise) is stored before the step is reset to \<open>AWAIT_FACE\<close>, and it is
  still in the state afterwards.
\<close>

theorem color_survives_redirect:
  assumes "kind ev = Message (Text text)"
    and "txt = text_of text"
    and "st = current_state us (userId ev)"
    and "\<not> is_greeting txt"
    and "\<not> regex_test RE_MODEL_PHOTO txt"
    and "txt \<noteq> QR_FREE_TEXT"
    and "step st = AWAIT_COLOR"
    and "\<not> truthy (faceB64 st)"
  shows "table_of (handleEvent w us ev) =
           us(userId ev \<mapsto> st\<lparr>color := Some (if txt = QR_KEEP then [] else txt),
                                  step := AWAIT_FACE\<rparr>) \<and>
         color (current_state (table_of (handleEvent w us ev)) (userId ev)) =
           Some (if txt = QR_KEEP then [] else txt) \<and>
         step (current_state (table_of (handleEvent w us ev)) (userId ev)) = AWAIT_FACE"
  using assms
  by (simp add: handleEvent_text handle_text_await_color [OF refl _ _ _ _ refl])

theorem color_survives_redirect_witness:
  "kind (text_event QR_BLACK) = Message (Text (Some QR_BLACK)) \<and>
   \<not> is_greeting (text_of (Some QR_BLACK)) \<and>
   \<not> regex_test RE_MODEL_PHOTO (text_of (Some QR_BLACK)) \<and>
   text_of (Some QR_BLACK) \<noteq> QR_FREE_TEXT \<and>
   step (current_state (table_with (state_at AWAIT_COLOR None (Some QR_BOB))) ''U1'') = AWAIT_COLOR \<and>
   \<not> truthy (faceB64 (current_state (table_with (state_at AWAIT_COLOR None (Some QR_BOB))) ''U1'')) \<and>
   table_of (handleEvent world_ok (table_with (state_at AWAIT_COLOR None (Some QR_BOB)))
       (text_event QR_BLACK)) =
     table_with \<lparr>step = AWAIT_FACE, faceB64 = None, style = Some QR_BOB,
        color = Some QR_BLACK, modelB64 = None\<rparr>"
proof -
  let ?us = "table_with (state_at AWAIT_COLOR None (Some QR_BOB))"
  have k: "kind (text_event QR_BLACK) = Message (Text (Some QR_BLACK))"
    by simp
  have g: "\<not> is_greeting (text_of (Some QR_BLACK))"
    and r: "\<not> regex_test RE_MODEL_PHOTO (text_of (Some QR_BLACK))"
    and m: "text_of (Some QR_BLACK) \<noteq> QR_FREE_TEXT"
    by (simp_all add: black_plain)
  have s: "step (current_state ?us (userId (text_event QR_BLACK))) = AWAIT_COLOR"
    and f: "\<not> truthy (faceB64 (current_state ?us (userId (text_event QR_BLACK))))"
    by (simp_all add: state_at_def truthy_def)
  from color_survives_redirect [OF k refl refl g r m s f, of world_ok]
  show ?thesis using k g r m s f by (simp add: black_plain state_at_def)
qed

lemma try_generate_first:
  "\<exists>st2 tr r. try_generate w uid st = (st2, GeminiFetch (generation_args st) # tr, r)"
proof -
  obtain g where g: "callGeminiImageCompose w (generation_args st) =
      ([GeminiFetch (generation_args st)], g)"
    using gemini_calls [of w "generation_args st"] by (metis prod.collapse)
  show ?thesis
    by (simp add: try_generate_def g split: sum.splits prod.splits)
qed

text \<open>The trigger of lines 259-267: once the "generating" reply is delivered, the next
  call is the generation request, made from the state with the colour just set.\<close>

lemma triggered_calls:
  assumes "txt = text_of text"
    and "\<not> is_greeting txt"
    and "\<not> regex_test RE_MODEL_PHOTO txt"
    and "txt \<noteq> QR_FREE_TEXT"
    and "step st = AWAIT_COLOR"
    and "st1 = st\<lparr>color := Some (if txt = QR_KEEP then [] else txt)\<rparr>"
    and "truthy (faceB64 st)"
    and "snd (reply w (replyToken ev) (TextMessage MSG_GENERATING None)) = Inr r"
  shows "\<exists>tr. calls_of (handle_text w us ev st text) =
     fst (reply w (replyToken ev) (TextMessage MSG_GENERATING None)) @
     GeminiFetch (generation_args st1) # tr"
proof -
  obtain t1 where t1: "reply w (replyToken ev) (TextMessage MSG_GENERATING None) = (t1, Inr r)"
    using assms(8) by (metis prod.collapse)
  obtain st2 tr g where gen: "try_generate w (userId ev) st1 =
      (st2, GeminiFetch (generation_args st1) # tr, g)"
    using try_generate_first by blast
  obtain t3 r3 where t3: "push w (userId ev) (TextMessage MSG_APOLOGY None) = (t3, r3)"
    by (cases "push w (userId ev) (TextMessage MSG_APOLOGY None)")
  show ?thesis
    unfolding handle_text_await_color [OF assms(1-6)]
    using assms(7) by (simp add: t1 gen t3 split: sum.splits)
qed

text \<open>
  Claim C5. When the trigger is reached with a face image, the "generating"
  reply is delivered and the generation call fails, the handler makes exactly one push,
  that of the apology, after the failed call, and leaves the state as it stood at the
  trigger: step \<open>AWAIT_COLOR\<close>, the colour just set, and style and both images as they
  were. Resending then retries: any later text of the user that reaches the trigger (a
  colour or a style label, or typed text), once its "generating" reply is delivered,
  makes the generation request again, with the face image, the reference image and the
  style of before and with that text as the colour; when it is the text of before, the
  request is the one that failed.
\<close>

theorem generation_failure_keeps_state:
  assumes "kind ev = Message (Text text)"
    and "txt = text_of text"
    and "st = current_state us (userId ev)"
    and "\<not> is_greeting txt"
    and "\<not> regex_test RE_MODEL_PHOTO txt"
    and "txt \<noteq> QR_FREE_TEXT"
    and "step st = AWAIT_COLOR"
    and "truthy (faceB64 st)"
    and "trig = st\<lparr>color := Some (if txt = QR_KEEP then [] else txt)\<rparr>"
    and "snd (reply w (replyToken ev) (TextMessage MSG_GENERATING None)) = Inr r"
    and "snd (callGeminiImageCompose w (generation_args trig)) = Inl e"
  shows "table_of (handleEvent w us ev) = us(userId ev \<mapsto> trig) \<and>
         calls_of (handleEvent w us ev) =
           fst (reply w (replyToken ev) (TextMessage MSG_GENERATING None)) @
           [GeminiFetch (generation_args trig)] @
           fst (push w (userId ev) (TextMessage MSG_APOLOGY None)) \<and>
         (\<forall>u m. PushCall u m \<in> set (calls_of (handleEvent w us ev)) \<longrightarrow>
            u = userId ev \<and> m = TextMessage MSG_APOLOGY None) \<and>
         result_of (handleEvent w us ev) =
           (case snd (push w (userId ev) (TextMessage MSG_APOLOGY None)) of
              Inl e' \<Rightarrow> Inl e' | Inr r' \<Rightarrow> Inr None) \<and>
         step (current_state (table_of (handleEvent w us ev)) (userId ev)) = AWAIT_COLOR \<and>
         style (current_state (table_of (handleEvent w us ev)) (userId ev)) = style st \<and>
         color (current_state (table_of (handleEvent w us ev)) (userId ev)) =
           Some (if txt = QR_KEEP then [] else txt) \<and>
         faceB64 (current_state (table_of (handleEvent w us ev)) (userId ev)) = faceB64 st \<and>
         modelB64 (current_state (table_of (handleEvent w us ev)) (userId ev)) = modelB64 st \<and>
         (\<forall>ev' text' r'.
            userId ev' = userId ev \<and> kind ev' = Message (Text text') \<and>
            \<not> is_greeting (text_of text') \<and> \<not> regex_test RE_MODEL_PHOTO (text_of text') \<and>
            text_of text' \<noteq> QR_FREE_TEXT \<and>
            snd (reply w (replyToken ev') (TextMessage MSG_GENERATING None)) = Inr r' \<longrightarrow>
            (\<exists>tr. calls_of (handleEvent w (table_of (handleEvent w us ev)) ev') =
               fst (reply w (replyToken ev') (TextMessage MSG_GENERATING None)) @
               GeminiFetch
                 \<lparr>arg_faceB64 = faceB64 st,
                  arg_modelB64 = (if truthy (modelB64 st) then modelB64 st else None),
                  arg_style = style st,
                  arg_color = Some (if text_of text' = QR_KEEP then [] else text_of text')\<rparr> # tr) \<and>
            (text_of text' = txt \<longrightarrow>
               GeminiFetch (generation_args trig) \<in>
                 set (calls_of (handleEvent w (table_of (handleEvent w us ev)) ev'))))"
proof -
  obtain t1 where t1: "reply w (replyToken ev) (TextMessage MSG_GENERATING None) = (t1, Inr r)"
    using assms(10) by (metis prod.collapse)
  obtain t3 r3 where t3: "push w (userId ev) (TextMessage MSG_APOLOGY None) = (t3, r3)"
    by (cases "push w (userId ev) (TextMessage MSG_APOLOGY None)")
  have gen: "try_generate w (userId ev) trig = (trig, [GeminiFetch (generation_args trig)], Inl e)"
    using assms(11) by (rule try_generate_failure)
  have "handle_text w (us(userId ev \<mapsto> st)) ev st text =
      (us(userId ev \<mapsto> trig), t1 @ [GeminiFetch (generation_args trig)] @ t3,
       (case r3 of Inl e' \<Rightarrow> Inl e' | Inr r' \<Rightarrow> Inr None))"
    unfolding handle_text_await_color [OF assms(2) assms(4-7) assms(9)]
    using assms(8) by (simp add: t1 t3 gen split: sum.splits)
  with assms(1,3) have body: "handleEvent w us ev =
      (us(userId ev \<mapsto> trig), t1 @ [GeminiFetch (generation_args trig)] @ t3,
       (case r3 of Inl e' \<Rightarrow> Inl e' | Inr r' \<Rightarrow> Inr None))"
    by (simp add: handleEvent_text)
  have pushes: "\<forall>u m. PushCall u m \<in> set (t1 @ [GeminiFetch (generation_args trig)] @ t3) \<longrightarrow>
      u = userId ev \<and> m = TextMessage MSG_APOLOGY None"
    using reply_no_push [of _ _ w "replyToken ev" "TextMessage MSG_GENERATING None"]
      push_only_own [of _ _ w "userId ev" "TextMessage MSG_APOLOGY None"]
    by (auto simp: t1 t3)
  have fields: "step trig = AWAIT_COLOR" "truthy (faceB64 trig)" "style trig = style st"
    "faceB64 trig = faceB64 st" "modelB64 trig = modelB64 st"
    using assms(7,8) by (simp_all add: assms(9))
  have again: "(\<exists>tr. calls_of (handleEvent w (us(userId ev \<mapsto> trig)) ev') =
         fst (reply w (replyToken ev') (TextMessage MSG_GENERATING None)) @
         GeminiFetch
           \<lparr>arg_faceB64 = faceB64 st,
            arg_modelB64 = (if truthy (modelB64 st) then modelB64 st else None),
            arg_style = style st,
            arg_color = Some (if text_of text' = QR_KEEP then [] else text_of text')\<rparr> # tr) \<and>
      (text_of text' = txt \<longrightarrow>
         GeminiFetch (generation_args trig) \<in>
           set (calls_of (handleEvent w (us(userId ev \<mapsto> trig)) ev')))"
    if u: "userId ev' = userId ev" and k: "kind ev' = Message (Text text')"
      and g: "\<not> is_greeting (text_of text')"
      and m: "\<not> regex_test RE_MODEL_PHOTO (text_of text')"
      and f: "text_of text' \<noteq> QR_FREE_TEXT"
      and a: "snd (reply w (replyToken ev') (TextMessage MSG_GENERATING None)) = Inr r'"
    for ev' text' r'
  proof -
    let ?c = "Some (if text_of text' = QR_KEEP then [] else text_of text')"
    have args: "generation_args (trig\<lparr>color := ?c\<rparr>) =
        \<lparr>arg_faceB64 = faceB64 st,
         arg_modelB64 = (if truthy (modelB64 st) then modelB64 st else None),
         arg_style = style st, arg_color = ?c\<rparr>"
      by (simp add: generation_args_def fields)
    have same: "text_of text' = txt \<Longrightarrow> trig\<lparr>color := ?c\<rparr> = trig"
      by (simp add: assms(9))
    from triggered_calls [OF refl g m f fields(1) refl fields(2) a]
    obtain tr where tr: "calls_of (handle_text w (us(userId ev \<mapsto> trig)) ev' trig text') =
        fst (reply w (replyToken ev') (TextMessage MSG_GENERATING None)) @
        GeminiFetch (generation_args (trig\<lparr>color := ?c\<rparr>)) # tr"
      by blast
    have run: "handleEvent w (us(userId ev \<mapsto> trig)) ev' =
        handle_text w (us(userId ev \<mapsto> trig)) ev' trig text'"
      using k u by (simp add: handleEvent_text)
    have one: "\<exists>tr. calls_of (handleEvent w (us(userId ev \<mapsto> trig)) ev') =
        fst (reply w (replyToken ev') (TextMessage MSG_GENERATING None)) @
        GeminiFetch
          \<lparr>arg_faceB64 = faceB64 st,
           arg_modelB64 = (if truthy (modelB64 st) then modelB64 st else None),
           arg_style = style st, arg_color = ?c\<rparr> # tr"
      using tr unfolding run args by blast
    have two: "text_of text' = txt \<longrightarrow>
        GeminiFetch (generation_args trig) \<in>
          set (calls_of (handleEvent w (us(userId ev \<mapsto> trig)) ev'))"
    proof
      assume "text_of text' = txt"
      with same have "trig\<lparr>color := ?c\<rparr> = trig" by simp
      with tr show "GeminiFetch (generation_args trig) \<in>
          set (calls_of (handleEvent w (us(userId ev \<mapsto> trig)) ev'))"
        unfolding run by simp
    qed
    from one two show ?thesis by blast
  qed
  have first: "table_of (handleEvent w us ev) = us(userId ev \<mapsto> trig) \<and>
         calls_of (handleEvent w us ev) =
           fst (reply w (replyToken ev) (TextMessage MSG_GENERATING None)) @
           [GeminiFetch (generation_args trig)] @
           fst (push w (userId ev) (TextMessage MSG_APOLOGY None)) \<and>
         (\<forall>u m. PushCall u m \<in> set (calls_of (handleEvent w us ev)) \<longrightarrow>
            u = userId ev \<and> m = TextMessage MSG_APOLOGY None) \<and>
         result_of (handleEvent w us ev) =
           (case snd (push w (userId ev) (TextMessage MSG_APOLOGY None)) of
              Inl e' \<Rightarrow> Inl e' | Inr r' \<Rightarrow> Inr None) \<and>
         step (current_state (table_of (handleEvent w us ev)) (userId ev)) = AWAIT_COLOR \<and>
         style (current_state (table_of (handleEvent w us ev)) (userId ev)) = style st \<and>
         color (current_state (table_of (handleEvent w us ev)) (userId ev)) =
           Some (if txt = QR_KEEP then [] else txt) \<and>
         faceB64 (current_state (table_of (handleEvent w us ev)) (userId ev)) = faceB64 st \<and>
         modelB64 (current_state (table_of (handleEvent w us ev)) (userId ev)) = modelB64 st"
    using pushes assms(7,9) by (simp add: body t1 t3)
  have tab: "table_of (handleEvent w us ev) = us(userId ev \<mapsto> trig)"
    by (simp add: body)
  from again have "\<forall>ev' text' r'.
      userId ev' = userId ev \<and> kind ev' = Message (Text text') \<and>
      \<not> is_greeting (text_of text') \<and> \<not> regex_test RE_MODEL_PHOTO (text_of text') \<and>
      text_of text' \<noteq> QR_FREE_TEXT \<and>
      snd (reply w (replyToken ev') (TextMessage MSG_GENERATING None)) = Inr r' \<longrightarrow>
      (\<exists>tr. calls_of (handleEvent w (table_of (handleEvent w us ev)) ev') =
         fst (reply w (replyToken ev') (TextMessage MSG_GENERATING None)) @
         GeminiFetch
           \<lparr>arg_faceB64 = faceB64 st,
            arg_modelB64 = (if truthy (modelB64 st) then modelB64 st else None),
            arg_style = style st,
            arg_color = Some (if text_of text' = QR_KEEP then [] else text_of text')\<rparr> # tr) \<and>
      (text_of text' = txt \<longrightarrow>
         GeminiFetch (generation_args trig) \<in>
           set (calls_of (handleEvent w (table_of (handleEvent w us ev)) ev')))"
    unfolding tab by blast
  with first show ?thesis by blast
qed

lemma generation_down:
  "snd (callGeminiImageCompose world_gemini_down args) = Inl (GeminiApiError 503)"
  by (simp add: callGeminiImageCompose_def world_gemini_down_def world_ok_def)

lemma short_plain:
  "text_of (Some QR_SHORT) = QR_SHORT"
  "\<not> is_greeting QR_SHORT"
  "\<not> regex_test RE_MODEL_PHOTO QR_SHORT"
  "QR_SHORT \<noteq> QR_FREE_TEXT"
  "QR_SHORT \<noteq> QR_KEEP"
  by (simp_all add: trim_defs greeting_defs RE_MODEL_PHOTO_def QR_FREE_TEXT_def QR_SHORT_def
      QR_KEEP_def)

text \<open>
  A user in \<open>AWAIT_COLOR\<close> with a face image and the style "bob" picks "black hair"
  while the generation API answers 503. Picking "black hair" again makes the same
  request again; sending the style label "short" instead makes a request with the style
  "bob" and the colour "short".
\<close>

theorem generation_failure_keeps_state_witness:
  "kind (text_event QR_BLACK) = Message (Text (Some QR_BLACK)) \<and>
   \<not> is_greeting (text_of (Some QR_BLACK)) \<and>
   \<not> regex_test RE_MODEL_PHOTO (text_of (Some QR_BLACK)) \<and>
   text_of (Some QR_BLACK) \<noteq> QR_FREE_TEXT \<and>
   step (state_at AWAIT_COLOR (Some ''/9j/'') (Some QR_BOB)) = AWAIT_COLOR \<and>
   truthy (faceB64 (state_at AWAIT_COLOR (Some ''/9j/'') (Some QR_BOB))) \<and>
   snd (reply world_gemini_down ''tok'' (TextMessage MSG_GENERATING None)) = Inr (Some ''{}'') \<and>
   snd (callGeminiImageCompose world_gemini_down
     (generation_args ((state_at AWAIT_COLOR (Some ''/9j/'') (Some QR_BOB))\<lparr>color := Some QR_BLACK\<rparr>))) =
     Inl (GeminiApiError 503) \<and>
   table_of (handleEvent world_gemini_down
       (table_with (state_at AWAIT_COLOR (Some ''/9j/'') (Some QR_BOB))) (text_event QR_BLACK)) =
     table_with \<lparr>step = AWAIT_COLOR, faceB64 = Some ''/9j/'', style = Some QR_BOB,
        color = Some QR_BLACK, modelB64 = None\<rparr> \<and>
   calls_of (handleEvent world_gemini_down
       (table_with (state_at AWAIT_COLOR (Some ''/9j/'') (Some QR_BOB))) (text_event QR_BLACK)) =
     [ReplyCall ''tok'' (TextMessage MSG_GENERATING None),
      GeminiFetch \<lparr>arg_faceB64 = Some ''/9j/'', arg_modelB64 = None, arg_style = Some QR_BOB,
        arg_color = Some QR_BLACK\<rparr>,
      PushCall ''U1'' (TextMessage MSG_APOLOGY None)] \<and>
   kind (text_event QR_SHORT) = Message (Text (Some QR_SHORT)) \<and>
   \<not> is_greeting (text_of (Some QR_SHORT)) \<and>
   \<not> regex_test RE_MODEL_PHOTO (text_of (Some QR_SHORT)) \<and>
   text_of (Some QR_SHORT) \<noteq> QR_FREE_TEXT \<and>
   GeminiFetch \<lparr>arg_faceB64 = Some ''/9j/'', arg_modelB64 = None, arg_style = Some QR_BOB,
       arg_color = Some QR_BLACK\<rparr> \<in>
     set (calls_of (handleEvent world_gemini_down
       (table_with \<lparr>step = AWAIT_COLOR, faceB64 = Some ''/9j/'', style = Some QR_BOB,
          color = Some QR_BLACK, modelB64 = None\<rparr>) (text_event QR_BLACK))) \<and>
   GeminiFetch \<lparr>arg_faceB64 = Some ''/9j/'', arg_modelB64 = None, arg_style = Some QR_BOB,
       arg_color = Some QR_SHORT\<rparr> \<in>
     set (calls_of (handleEvent world_gemini_down
       (table_with \<lparr>step = AWAIT_COLOR, faceB64 = Some ''/9j/'', style = Some QR_BOB,
          color = Some QR_BLACK, modelB64 = None\<rparr>) (text_event QR_SHORT)))"
proof -
  let ?st = "state_at AWAIT_COLOR (Some ''/9j/'') (Some QR_BOB)"
  let ?us = "table_with ?st"
  let ?after = "table_with \<lparr>step = AWAIT_COLOR, faceB64 = Some ''/9j/'', style = Some QR_BOB,
        color = Some QR_BLACK, modelB64 = None\<rparr>"
  have k: "kind (text_event QR_BLACK) = Message (Text (Some QR_BLACK))"
    and k': "kind (text_event QR_SHORT) = Message (Text (Some QR_SHORT))"
    by simp_all
  have g: "\<not> is_greeting (text_of (Some QR_BLACK))"
    and r: "\<not> regex_test RE_MODEL_PHOTO (text_of (Some QR_BLACK))"
    and m: "text_of (Some QR_BLACK) \<noteq> QR_FREE_TEXT"
    by (simp_all add: black_plain)
  have g': "\<not> is_greeting (text_of (Some QR_SHORT))"
    and r': "\<not> regex_test RE_MODEL_PHOTO (text_of (Some QR_SHORT))"
    and m': "text_of (Some QR_SHORT) \<noteq> QR_FREE_TEXT"
    by (simp_all add: short_plain)
  have s: "step (current_state ?us (userId (text_event QR_BLACK))) = AWAIT_COLOR"
    and f: "truthy (faceB64 (current_state ?us (userId (text_event QR_BLACK))))"
    by (simp_all add: state_at_def truthy_def)
  have a: "snd (reply world_gemini_down (replyToken (text_event QR_BLACK))
      (TextMessage MSG_GENERATING None)) = Inr (Some ''{}'')"
    and a'': "snd (reply world_gemini_down (replyToken (text_event QR_SHORT))
      (TextMessage MSG_GENERATING None)) = Inr (Some ''{}'')"
    by simp_all
  note inst = generation_failure_keeps_state [OF k refl refl g r m s f refl a generation_down]
  from inst [THEN conjunct1]
  have tab: "table_of (handleEvent world_gemini_down ?us (text_event QR_BLACK)) = ?after"
    by (simp add: black_plain state_at_def)
  from inst [THEN conjunct2, THEN conjunct1]
  have calls: "calls_of (handleEvent world_gemini_down ?us (text_event QR_BLACK)) =
      [ReplyCall ''tok'' (TextMessage MSG_GENERATING None),
       GeminiFetch \<lparr>arg_faceB64 = Some ''/9j/'', arg_modelB64 = None, arg_style = Some QR_BOB,
         arg_color = Some QR_BLACK\<rparr>,
       PushCall ''U1'' (TextMessage MSG_APOLOGY None)]"
    by (simp add: black_plain generation_args_def state_at_def truthy_def)
  note later = inst [THEN conjunct2, THEN conjunct2, THEN conjunct2, THEN conjunct2,
      THEN conjunct2, THEN conjunct2, THEN conjunct2, THEN conjunct2, THEN conjunct2,
      unfolded tab]
  from later have "userId (text_event QR_BLACK) = userId (text_event QR_BLACK) \<and>
      kind (text_event QR_BLACK) = Message (Text (Some QR_BLACK)) \<and>
      \<not> is_greeting (text_of (Some QR_BLACK)) \<and>
      \<not> regex_test RE_MODEL_PHOTO (text_of (Some QR_BLACK)) \<and>
      text_of (Some QR_BLACK) \<noteq> QR_FREE_TEXT \<and>
      snd (reply world_gemini_down (replyToken (text_event QR_BLACK))
        (TextMessage MSG_GENERATING None)) = Inr (Some ''{}'') \<longrightarrow>
      (\<exists>tr. calls_of (handleEvent world_gemini_down ?after (text_event QR_BLACK)) =
         fst (reply world_gemini_down (replyToken (text_event QR_BLACK))
           (TextMessage MSG_GENERATING None)) @
         GeminiFetch
           \<lparr>arg_faceB64 = faceB64 (current_state ?us (userId (text_event QR_BLACK))),
            arg_modelB64 =
              (if truthy (modelB64 (current_state ?us (userId (text_event QR_BLACK))))
               then modelB64 (current_state ?us (userId (text_event QR_BLACK))) else None),
            arg_style = style (current_state ?us (userId (text_event QR_BLACK))),
            arg_color = Some (if text_of (Some QR_BLACK) = QR_KEEP then []
              else text_of (Some QR_BLACK))\<rparr> # tr)"
    by blast
  with k g r m a
  have again: "GeminiFetch \<lparr>arg_faceB64 = Some ''/9j/'', arg_modelB64 = None,
      arg_style = Some QR_BOB, arg_color = Some QR_BLACK\<rparr> \<in>
      set (calls_of (handleEvent world_gemini_down ?after (text_event QR_BLACK)))"
    by (auto simp: black_plain state_at_def truthy_def)
  from later have "userId (text_event QR_SHORT) = userId (text_event QR_BLACK) \<and>
      kind (text_event QR_SHORT) = Message (Text (Some QR_SHORT)) \<and>
      \<not> is_greeting (text_of (Some QR_SHORT)) \<and>
      \<not> regex_test RE_MODEL_PHOTO (text_of (Some QR_SHORT)) \<and>
      text_of (Some QR_SHORT) \<noteq> QR_FREE_TEXT \<and>
      snd (reply world_gemini_down (replyToken (text_event QR_SHORT))
        (TextMessage MSG_GENERATING None)) = Inr (Some ''{}'') \<longrightarrow>
      (\<exists>tr. calls_of (handleEvent world_gemini_down ?after (text_event QR_SHORT)) =
         fst (reply world_gemini_down (replyToken (text_event QR_SHORT))
           (TextMessage MSG_GENERATING None)) @
         GeminiFetch
           \<lparr>arg_faceB64 = faceB64 (current_state ?us (userId (text_event QR_BLACK))),
            arg_modelB64 =
              (if truthy (modelB64 (current_state ?us (userId (text_event QR_BLACK))))
               then modelB64 (current_state ?us (userId (text_event QR_BLACK))) else None),
            arg_style = style (current_state ?us (userId (text_event QR_BLACK))),
            arg_color = Some (if text_of (Some QR_SHORT) = QR_KEEP then []
              else text_of (Some QR_SHORT))\<rparr> # tr)"
    by blast
  with k' g' r' m' a''
  have style_label: "GeminiFetch \<lparr>arg_faceB64 = Some ''/9j/'', arg_modelB64 = None,
      arg_style = Some QR_BOB, arg_color = Some QR_SHORT\<rparr> \<in>
      set (calls_of (handleEvent world_gemini_down ?after (text_event QR_SHORT)))"
    by (auto simp: short_plain state_at_def truthy_def)
  have s': "step ?st = AWAIT_COLOR" and f': "truthy (faceB64 ?st)"
    by (simp_all add: state_at_def truthy_def)
  have a': "snd (reply world_gemini_down ''tok'' (TextMessage MSG_GENERATING None)) =
      Inr (Some ''{}'')"
    by simp
  from k g r m s' f' a' generation_down [of "generation_args (?st\<lparr>color := Some QR_BLACK\<rparr>)"]
    tab calls k' g' r' m' again style_label show ?thesis
    by (intro conjI)
qed

lemma bob_plain:
  "truthy (Some QR_BOB)"
  by (simp_all add: truthy_def QR_BOB_def)

lemma generation_ok: "snd (callGeminiImageCompose world_ok args) = Inr ''R0VO''"
  by (simp add: callGeminiImageCompose_def world_ok_def truthy_def)

lemma save_ok:
  "saveTempImage world_ok b64 uid prefix =
     ([WriteFile (prefix @ ''_'' @ uid @ ''_1700000000000.jpg'') b64],
      Inr (''https://bot.example/tmp/'' @ prefix @ ''_'' @ uid @ ''_1700000000000.jpg''))"
  by (simp add: saveTempImage_def world_ok_def Let_def)

text \<open>
  Claim C3, amended. After a generation cycle in which the generation call, the
  write to the asset store and the two pushes of the result all succeed, the face image
  is the one of before, the reference image and the colour are absent and the step is
  \<open>AWAIT_STYLE\<close>; the style is the one of before, it is not cleared.
\<close>

theorem successful_cycle_state:
  assumes "kind ev = Message (Text text)"
    and "txt = text_of text"
    and "st = current_state us (userId ev)"
    and "\<not> is_greeting txt"
    and "\<not> regex_test RE_MODEL_PHOTO txt"
    and "txt \<noteq> QR_FREE_TEXT"
    and "step st = AWAIT_COLOR"
    and "truthy (faceB64 st)"
    and "trig = st\<lparr>color := Some (if txt = QR_KEEP then [] else txt)\<rparr>"
    and "snd (reply w (replyToken ev) (TextMessage MSG_GENERATING None)) = Inr r"
    and "snd (callGeminiImageCompose w (generation_args trig)) = Inr img"
    and "snd (saveTempImage w img (userId ev) ''hair'') = Inr url"
    and "snd (push w (userId ev) (ImageMessage url url)) = Inr r3"
    and "snd (push w (userId ev) (TextMessage MSG_DONE (Some RESULT_QR))) = Inr r4"
  shows "table_of (handleEvent w us ev) =
           us(userId ev \<mapsto> st\<lparr>step := AWAIT_STYLE, modelB64 := None, color := None\<rparr>) \<and>
         faceB64 (current_state (table_of (handleEvent w us ev)) (userId ev)) = faceB64 st \<and>
         style (current_state (table_of (handleEvent w us ev)) (userId ev)) = style st \<and>
         modelB64 (current_state (table_of (handleEvent w us ev)) (userId ev)) = None \<and>
         color (current_state (table_of (handleEvent w us ev)) (userId ev)) = None \<and>
         step (current_state (table_of (handleEvent w us ev)) (userId ev)) = AWAIT_STYLE \<and>
         result_of (handleEvent w us ev) = Inr None"
proof -
  obtain t1 where t1: "reply w (replyToken ev) (TextMessage MSG_GENERATING None) = (t1, Inr r)"
    using assms(10) by (metis prod.collapse)
  note gen = try_generate_success [OF assms(11-14)]
  have "handle_text w (us(userId ev \<mapsto> st)) ev st text =
      (us(userId ev \<mapsto> trig\<lparr>step := AWAIT_STYLE, modelB64 := None, color := None\<rparr>),
       t1 @ fst (callGeminiImageCompose w (generation_args trig)) @
         fst (saveTempImage w img (userId ev) ''hair'') @
         fst (push w (userId ev) (ImageMessage url url)) @
         fst (push w (userId ev) (TextMessage MSG_DONE (Some RESULT_QR))), Inr None)"
    unfolding handle_text_await_color [OF assms(2) assms(4-7) assms(9)]
    using assms(8) by (simp add: t1 gen)
  with assms(1,3) have body: "table_of (handleEvent w us ev) =
      us(userId ev \<mapsto> trig\<lparr>step := AWAIT_STYLE, modelB64 := None, color := None\<rparr>)"
    and res: "result_of (handleEvent w us ev) = Inr None"
    by (simp_all add: handleEvent_text)
  have "trig\<lparr>step := AWAIT_STYLE, modelB64 := None, color := None\<rparr> =
      st\<lparr>step := AWAIT_STYLE, modelB64 := None, color := None\<rparr>"
    by (simp add: assms(9))
  with body res show ?thesis by simp
qed

text \<open>
  The hypotheses hold for a user in \<open>AWAIT_COLOR\<close> with a face image and the
  style "bob" who answers "as it is", in the world where every call succeeds.
\<close>

theorem successful_cycle_state_witness:
  "kind (text_event QR_KEEP) = Message (Text (Some QR_KEEP)) \<and>
   \<not> is_greeting (text_of (Some QR_KEEP)) \<and>
   \<not> regex_test RE_MODEL_PHOTO (text_of (Some QR_KEEP)) \<and>
   text_of (Some QR_KEEP) \<noteq> QR_FREE_TEXT \<and>
   step (state_at AWAIT_COLOR (Some ''/9j/'') (Some QR_BOB)) = AWAIT_COLOR \<and>
   truthy (faceB64 (state_at AWAIT_COLOR (Some ''/9j/'') (Some QR_BOB))) \<and>
   snd (reply world_ok ''tok'' (TextMessage MSG_GENERATING None)) = Inr (Some ''{}'') \<and>
   snd (callGeminiImageCompose world_ok
     (generation_args ((state_at AWAIT_COLOR (Some ''/9j/'') (Some QR_BOB))\<lparr>color := Some []\<rparr>))) =
     Inr ''R0VO'' \<and>
   snd (saveTempImage world_ok ''R0VO'' ''U1'' ''hair'') =
     Inr ''https://bot.example/tmp/hair_U1_1700000000000.jpg'' \<and>
   snd (push world_ok ''U1'' (ImageMessage ''https://bot.example/tmp/hair_U1_1700000000000.jpg''
     ''https://bot.example/tmp/hair_U1_1700000000000.jpg'')) = Inr (Some ''{}'') \<and>
   snd (push world_ok ''U1'' (TextMessage MSG_DONE (Some RESULT_QR))) = Inr (Some ''{}'') \<and>
   table_of (handleEvent world_ok (table_with (state_at AWAIT_COLOR (Some ''/9j/'') (Some QR_BOB)))
       (text_event QR_KEEP)) =
     table_with \<lparr>step = AWAIT_STYLE, faceB64 = Some ''/9j/'', style = Some QR_BOB,
        color = None, modelB64 = None\<rparr>"
proof -
  let ?st = "state_at AWAIT_COLOR (Some ''/9j/'') (Some QR_BOB)"
  let ?us = "table_with ?st"
  let ?url = "''https://bot.example/tmp/hair_U1_1700000000000.jpg''"
  have k: "kind (text_event QR_KEEP) = Message (Text (Some QR_KEEP))"
    by simp
  have g: "\<not> is_greeting (text_of (Some QR_KEEP))"
    and r: "\<not> regex_test RE_MODEL_PHOTO (text_of (Some QR_KEEP))"
    and m: "text_of (Some QR_KEEP) \<noteq> QR_FREE_TEXT"
    by (simp_all add: keep_plain)
  have s: "step (current_state ?us (userId (text_event QR_KEEP))) = AWAIT_COLOR"
    and f: "truthy (faceB64 (current_state ?us (userId (text_event QR_KEEP))))"
    by (simp_all add: state_at_def truthy_def)
  have a: "snd (reply world_ok (replyToken (text_event QR_KEEP))
      (TextMessage MSG_GENERATING None)) = Inr (Some ''{}'')"
    by simp
  have sv: "snd (saveTempImage world_ok ''R0VO'' (userId (text_event QR_KEEP)) ''hair'') = Inr ?url"
    by (simp add: save_ok)
  have p1: "snd (push world_ok (userId (text_event QR_KEEP)) (ImageMessage ?url ?url)) =
      Inr (Some ''{}'')"
    and p2: "snd (push world_ok (userId (text_event QR_KEEP)) (TextMessage MSG_DONE (Some RESULT_QR))) =
      Inr (Some ''{}'')"
    by simp_all
  note inst = successful_cycle_state [OF k refl refl g r m s f refl a generation_ok sv p1 p2]
  from inst [THEN conjunct1]
  have tab: "table_of (handleEvent world_ok ?us (text_event QR_KEEP)) =
      table_with \<lparr>step = AWAIT_STYLE, faceB64 = Some ''/9j/'', style = Some QR_BOB,
        color = None, modelB64 = None\<rparr>"
    by (simp add: state_at_def)
  have s': "step ?st = AWAIT_COLOR" and f': "truthy (faceB64 ?st)"
    by (simp_all add: state_at_def truthy_def)
  have a': "snd (reply world_ok ''tok'' (TextMessage MSG_GENERATING None)) = Inr (Some ''{}'')"
    and sv': "snd (saveTempImage world_ok ''R0VO'' ''U1'' ''hair'') = Inr ?url"
    and p1': "snd (push world_ok ''U1'' (ImageMessage ?url ?url)) = Inr (Some ''{}'')"
    and p2': "snd (push world_ok ''U1'' (TextMessage MSG_DONE (Some RESULT_QR))) = Inr (Some ''{}'')"
    by (simp_all add: save_ok)
  from k g r m s' f' a' generation_ok [of "generation_args (?st\<lparr>color := Some []\<rparr>)"]
    sv' p1' p2' tab
  show ?thesis by (intro conjI)
qed

text \<open>
  Claim C3 as stated, with the style cleared, fails for that user: the generation
  succeeds, the handler ends normally in step \<open>AWAIT_STYLE\<close>, and the style is still
  "bob".
\<close>

theorem success_leaves_style_counterexample:
  "snd (callGeminiImageCompose world_ok
     (generation_args ((state_at AWAIT_COLOR (Some ''/9j/'') (Some QR_BOB))\<lparr>color := Some []\<rparr>))) =
     Inr ''R0VO'' \<and>
   result_of (handleEvent world_ok (table_with (state_at AWAIT_COLOR (Some ''/9j/'') (Some QR_BOB)))
       (text_event QR_KEEP)) = Inr None \<and>
   step (current_state (table_of (handleEvent world_ok
       (table_with (state_at AWAIT_COLOR (Some ''/9j/'') (Some QR_BOB))) (text_event QR_KEEP))) ''U1'') =
     AWAIT_STYLE \<and>
   \<not> (style (current_state (table_of (handleEvent world_ok
       (table_with (state_at AWAIT_COLOR (Some ''/9j/'') (Some QR_BOB))) (text_event QR_KEEP))) ''U1'') =
     None)"
proof -
  let ?st = "state_at AWAIT_COLOR (Some ''/9j/'') (Some QR_BOB)"
  have "try_generate world_ok ''U1'' (?st\<lparr>color := Some []\<rparr>) =
      (?st\<lparr>color := Some [], step := AWAIT_STYLE, modelB64 := None, color := None\<rparr>,
       fst (callGeminiImageCompose world_ok (generation_args (?st\<lparr>color := Some []\<rparr>))) @
       fst (saveTempImage world_ok ''R0VO'' ''U1'' ''hair'') @
       fst (push world_ok ''U1'' (ImageMessage ''https://bot.example/tmp/hair_U1_1700000000000.jpg''
         ''https://bot.example/tmp/hair_U1_1700000000000.jpg'')) @
       fst (push world_ok ''U1'' (TextMessage MSG_DONE (Some RESULT_QR))), Inr ())"
    by (rule try_generate_success) (simp_all add: generation_ok save_ok)
  then have "handleEvent world_ok (table_with ?st) (text_event QR_KEEP) =
      (table_with (?st\<lparr>color := Some [], step := AWAIT_STYLE, modelB64 := None, color := None\<rparr>),
       [ReplyCall ''tok'' (TextMessage MSG_GENERATING None)] @
       fst (callGeminiImageCompose world_ok (generation_args (?st\<lparr>color := Some []\<rparr>))) @
       fst (saveTempImage world_ok ''R0VO'' ''U1'' ''hair'') @
       fst (push world_ok ''U1'' (ImageMessage ''https://bot.example/tmp/hair_U1_1700000000000.jpg''
         ''https://bot.example/tmp/hair_U1_1700000000000.jpg'')) @
       fst (push world_ok ''U1'' (TextMessage MSG_DONE (Some RESULT_QR))), Inr None)"
    by (simp add: handleEvent_text
        handle_text_await_color [OF refl _ _ _ _ refl] keep_plain state_at_def truthy_def)
  then show ?thesis
    by (simp add: generation_ok state_at_def)
qed

text \<open>
  Claim C6, amended. In every conversation state the free-text marker is answered
  by one explicit-entry prompt. It is the style-entry prompt, and the step becomes
  \<open>AWAIT_STYLE\<close>, when the step is \<open>AWAIT_STYLE\<close> already or the style is absent or
  empty; otherwise it is the colour-entry prompt, and the step becomes \<open>AWAIT_COLOR\<close>.
  Nothing else of the state changes.
\<close>

theorem free_text_marker_prompt:
  assumes "kind ev = Message (Text text)"
    and "text_of text = QR_FREE_TEXT"
    and "st = current_state us (userId ev)"
  shows "(step st = AWAIT_STYLE \<or> \<not> truthy (style st) \<longrightarrow>
            table_of (handleEvent w us ev) = us(userId ev \<mapsto> st\<lparr>step := AWAIT_STYLE\<rparr>) \<and>
            calls_of (handleEvent w us ev) =
              fst (reply w (replyToken ev) (TextMessage MSG_ENTER_STYLE None)) \<and>
            result_of (handleEvent w us ev) =
              snd (reply w (replyToken ev) (TextMessage MSG_ENTER_STYLE None))) \<and>
         (step st \<noteq> AWAIT_STYLE \<and> truthy (style st) \<longrightarrow>
            table_of (handleEvent w us ev) = us(userId ev \<mapsto> st\<lparr>step := AWAIT_COLOR\<rparr>) \<and>
            calls_of (handleEvent w us ev) =
              fst (reply w (replyToken ev) (TextMessage MSG_ENTER_COLOR None)) \<and>
            result_of (handleEvent w us ev) =
              snd (reply w (replyToken ev) (TextMessage MSG_ENTER_COLOR None)))"
  using assms marker_plain(2,3)
  by (simp add: handleEvent_text handle_text_def Let_def)

text \<open>
  Both branches are taken: a user in \<open>AWAIT_STYLE\<close> gets the style-entry
  prompt, a user in \<open>AWAIT_FACE\<close> with a style gets the colour-entry prompt and moves to
  \<open>AWAIT_COLOR\<close>.
\<close>

theorem free_text_marker_prompt_witness:
  "kind (text_event QR_FREE_TEXT) = Message (Text (Some QR_FREE_TEXT)) \<and>
   text_of (Some QR_FREE_TEXT) = QR_FREE_TEXT \<and>
   step (state_at AWAIT_STYLE (Some ''/9j/'') (Some QR_BOB)) = AWAIT_STYLE \<and>
   calls_of (handleEvent world_ok (table_with (state_at AWAIT_STYLE (Some ''/9j/'') (Some QR_BOB)))
       (text_event QR_FREE_TEXT)) =
     [ReplyCall ''tok'' (TextMessage MSG_ENTER_STYLE None)] \<and>
   step (state_at AWAIT_FACE (Some ''/9j/'') (Some QR_BOB)) \<noteq> AWAIT_STYLE \<and>
   truthy (style (state_at AWAIT_FACE (Some ''/9j/'') (Some QR_BOB))) \<and>
   calls_of (handleEvent world_ok (table_with (state_at AWAIT_FACE (Some ''/9j/'') (Some QR_BOB)))
       (text_event QR_FREE_TEXT)) =
     [ReplyCall ''tok'' (TextMessage MSG_ENTER_COLOR None)] \<and>
   table_of (handleEvent world_ok (table_with (state_at AWAIT_FACE (Some ''/9j/'') (Some QR_BOB)))
       (text_event QR_FREE_TEXT)) =
     table_with (state_at AWAIT_COLOR (Some ''/9j/'') (Some QR_BOB))"
proof -
  let ?s1 = "state_at AWAIT_STYLE (Some ''/9j/'') (Some QR_BOB)"
  let ?s2 = "state_at AWAIT_FACE (Some ''/9j/'') (Some QR_BOB)"
  have k: "kind (text_event QR_FREE_TEXT) = Message (Text (Some QR_FREE_TEXT))"
    by simp
  have t: "text_of (Some QR_FREE_TEXT) = QR_FREE_TEXT"
    by (rule marker_plain(1))
  have h1: "step ?s1 = AWAIT_STYLE"
    and h2: "step ?s2 \<noteq> AWAIT_STYLE" and h3: "truthy (style ?s2)"
    by (simp_all add: state_at_def bob_plain)
  note i1 = free_text_marker_prompt [where w = world_ok and us = "table_with ?s1", OF k t refl, THEN conjunct1]
  note i2 = free_text_marker_prompt [where w = world_ok and us = "table_with ?s2", OF k t refl, THEN conjunct2]
  from i1 h1 have c1: "calls_of (handleEvent world_ok (table_with ?s1) (text_event QR_FREE_TEXT)) =
      [ReplyCall ''tok'' (TextMessage MSG_ENTER_STYLE None)]"
    by simp
  from i2 h2 h3 have c2: "calls_of (handleEvent world_ok (table_with ?s2) (text_event QR_FREE_TEXT)) =
      [ReplyCall ''tok'' (TextMessage MSG_ENTER_COLOR None)]"
    and c3: "table_of (handleEvent world_ok (table_with ?s2) (text_event QR_FREE_TEXT)) =
      table_with (state_at AWAIT_COLOR (Some ''/9j/'') (Some QR_BOB))"
    by (simp_all add: state_at_def)
  from k t h1 c1 h2 h3 c2 c3 show ?thesis by (intro conjI)
qed

lemma entry_prompts_differ: "MSG_ENTER_STYLE \<noteq> MSG_ENTER_COLOR"
  by (simp add: MSG_ENTER_STYLE_def MSG_ENTER_COLOR_def)

text \<open>
  Claim C6 as stated fails: with the style set and the step \<open>AWAIT_STYLE\<close>
  (the state after a successful generation) the marker is answered by the style-entry
  prompt, not by the colour-entry prompt; and a user in \<open>AWAIT_COLOR\<close> without a style
  is moved to \<open>AWAIT_STYLE\<close>.
\<close>

theorem free_text_marker_counterexample:
  "truthy (style (state_at AWAIT_STYLE (Some ''/9j/'') (Some QR_BOB))) \<and>
   calls_of (handleEvent world_ok (table_with (state_at AWAIT_STYLE (Some ''/9j/'') (Some QR_BOB)))
       (text_event QR_FREE_TEXT)) =
     [ReplyCall ''tok'' (TextMessage MSG_ENTER_STYLE None)] \<and>
   \<not> (calls_of (handleEvent world_ok (table_with (state_at AWAIT_STYLE (Some ''/9j/'') (Some QR_BOB)))
       (text_event QR_FREE_TEXT)) =
     [ReplyCall ''tok'' (TextMessage MSG_ENTER_COLOR None)]) \<and>
   step (state_at AWAIT_COLOR (Some ''/9j/'') None) = AWAIT_COLOR \<and>
   \<not> (step (current_state (table_of (handleEvent world_ok
       (table_with (state_at AWAIT_COLOR (Some ''/9j/'') None)) (text_event QR_FREE_TEXT))) ''U1'') =
     AWAIT_COLOR)"
  by (simp add: handleEvent_text handle_text_def Let_def marker_plain state_at_def truthy_def
      bob_plain [unfolded truthy_def, simplified] entry_prompts_differ)

text \<open>
  Every path through the text branch starts with a call of the platform's reply
  operation.
\<close>

lemma await_color_first_call:
  assumes "txt = text_of text"
    and "\<not> is_greeting txt"
    and "\<not> regex_test RE_MODEL_PHOTO txt"
    and "txt \<noteq> QR_FREE_TEXT"
    and "step st = AWAIT_COLOR"
  shows "\<exists>tr. calls_of (handle_text w us ev st text) =
     ReplyCall (replyToken ev)
       (TextMessage (if truthy (faceB64 st) then MSG_GENERATING else MSG_SELFIE_FIRST) None) # tr"
proof (cases "truthy (faceB64 st)")
  case True
  obtain t1 r1 where t1: "reply w (replyToken ev) (TextMessage MSG_GENERATING None) = (t1, r1)"
    by (cases "reply w (replyToken ev) (TextMessage MSG_GENERATING None)")
  from reply_first [of w "replyToken ev" "TextMessage MSG_GENERATING None"] t1
  obtain tr where tr: "t1 = ReplyCall (replyToken ev) (TextMessage MSG_GENERATING None) # tr"
    by auto
  from True show ?thesis
    unfolding handle_text_await_color [OF assms refl]
    by (simp add: t1 tr split: sum.splits prod.splits)
next
  case False
  with reply_first [of w "replyToken ev" "TextMessage MSG_SELFIE_FIRST None"] show ?thesis
    unfolding handle_text_await_color [OF assms refl] by simp
qed

lemma handle_text_first_call:
  "\<exists>m tr. calls_of (handle_text w us ev st text) = ReplyCall (replyToken ev) m # tr"
proof -
  have resp: "\<And>us' m. \<exists>m' tr. calls_of (respond w ev us' [] m) = ReplyCall (replyToken ev) m' # tr"
    using reply_first by (simp, blast)
  show ?thesis
  proof (cases "\<not> is_greeting (text_of text) \<and> \<not> regex_test RE_MODEL_PHOTO (text_of text) \<and>
      text_of text \<noteq> QR_FREE_TEXT \<and> step st = AWAIT_COLOR")
    case True
    then have a: "\<not> is_greeting (text_of text)"
      and b: "\<not> regex_test RE_MODEL_PHOTO (text_of text)"
      and c: "text_of text \<noteq> QR_FREE_TEXT"
      and d: "step st = AWAIT_COLOR"
      by simp_all
    from await_color_first_call [OF refl a b c d] show ?thesis
      by blast
  next
    case False
    then show ?thesis
      using resp
      by (auto simp add: handle_text_def Let_def simp del: respond_parts)
  qed
qed

text \<open>
  Claim C1, amended. Take a text that is unrecognized (no greeting, no quick-reply
  label or marker, no shortcut) and does not contain the "model photo" substring. It is
  never dropped: in every state the handler's first call is a reply on the event's token.
  In step \<open>AWAIT_FACE\<close> that reply is the photo prompt and the state is left as it is,
  so the step is \<open>AWAIT_FACE\<close> afterwards. In step \<open>AWAIT_MODEL_IMAGE\<close> the reply is the
  photo prompt. In step \<open>AWAIT_STYLE\<close> the text is the typed style: it is stored, the
  step becomes \<open>AWAIT_COLOR\<close> and the reply asks for the colour. In step \<open>AWAIT_COLOR\<close>
  the text is the typed colour: the reply is the "generating" notice, or the prompt to
  send a selfie first when no face image is stored.
\<close>

theorem unrecognized_text_is_answered:
  assumes "kind ev = Message (Text text)"
    and "txt = text_of text"
    and "st = current_state us (userId ev)"
    and "unrecognized txt"
    and "\<not> regex_test RE_MODEL_PHOTO txt"
  shows "(\<exists>m tr. calls_of (handleEvent w us ev) = ReplyCall (replyToken ev) m # tr) \<and>
         (step st = AWAIT_FACE \<longrightarrow>
            table_of (handleEvent w us ev) = us(userId ev \<mapsto> st) \<and>
            step (current_state (table_of (handleEvent w us ev)) (userId ev)) = AWAIT_FACE \<and>
            calls_of (handleEvent w us ev) =
              fst (reply w (replyToken ev) (TextMessage MSG_PHOTO_PROMPT None)) \<and>
            result_of (handleEvent w us ev) =
              snd (reply w (replyToken ev) (TextMessage MSG_PHOTO_PROMPT None))) \<and>
         (step st = AWAIT_MODEL_IMAGE \<longrightarrow>
            calls_of (handleEvent w us ev) =
              fst (reply w (replyToken ev) (TextMessage MSG_PHOTO_PROMPT None)) \<and>
            result_of (handleEvent w us ev) =
              snd (reply w (replyToken ev) (TextMessage MSG_PHOTO_PROMPT None))) \<and>
         (step st = AWAIT_STYLE \<longrightarrow>
            table_of (handleEvent w us ev) =
              us(userId ev \<mapsto> st\<lparr>style := Some txt, step := AWAIT_COLOR\<rparr>) \<and>
            calls_of (handleEvent w us ev) =
              fst (reply w (replyToken ev) (TextMessage MSG_ASK_COLOR (Some COLOR_QR)))) \<and>
         (step st = AWAIT_COLOR \<longrightarrow>
            (\<exists>tr. calls_of (handleEvent w us ev) =
               ReplyCall (replyToken ev)
                 (TextMessage (if truthy (faceB64 st) then MSG_GENERATING else MSG_SELFIE_FIRST)
                    None) # tr))"
proof -
  from assms(4) have g: "\<not> is_greeting txt" and m: "txt \<noteq> QR_FREE_TEXT"
    and n: "txt \<noteq> SC_TRY_AGAIN" "txt \<noteq> SC_CHANGE_STYLE" "txt \<noteq> SC_CHANGE_COLOR"
    by (auto simp: unrecognized_def STYLE_QR_def RESULT_QR_def)
  have first: "\<exists>m tr. calls_of (handleEvent w us ev) = ReplyCall (replyToken ev) m # tr"
    using assms(1) handle_text_first_call by (simp add: handleEvent_text)
  have fall: "step st = AWAIT_FACE \<or> step st = AWAIT_MODEL_IMAGE \<longrightarrow>
      handleEvent w us ev =
        respond w ev (us(userId ev \<mapsto> st)) [] (TextMessage MSG_PHOTO_PROMPT None)"
    using assms(1,3,5) g m n unfolding assms(2)
    by (auto simp add: handleEvent_text handle_text_def Let_def)
  have sty: "step st = AWAIT_STYLE \<longrightarrow>
      handleEvent w us ev =
        respond w ev (us(userId ev \<mapsto> st\<lparr>style := Some txt, step := AWAIT_COLOR\<rparr>)) []
          (TextMessage MSG_ASK_COLOR (Some COLOR_QR))"
    using assms(1,3,5) g m unfolding assms(2)
    by (simp add: handleEvent_text handle_text_def Let_def)
  have col: "step st = AWAIT_COLOR \<longrightarrow>
      (\<exists>tr. calls_of (handleEvent w us ev) =
         ReplyCall (replyToken ev)
           (TextMessage (if truthy (faceB64 st) then MSG_GENERATING else MSG_SELFIE_FIRST)
              None) # tr)"
    using assms(1) await_color_first_call [OF assms(2) g assms(5) m]
    by (simp add: handleEvent_text assms(3))
  from first fall sty col show ?thesis by simp
qed

text \<open>
  The text \<^verbatim>\<open>abc\<close> is unrecognized; it is sent by a new user and by users in steps
  \<open>AWAIT_MODEL_IMAGE\<close>, \<open>AWAIT_STYLE\<close> and \<open>AWAIT_COLOR\<close>.
\<close>

theorem unrecognized_text_is_answered_witness:
  "kind (text_event plain_text) = Message (Text (Some plain_text)) \<and>
   unrecognized (text_of (Some plain_text)) \<and>
   \<not> regex_test RE_MODEL_PHOTO (text_of (Some plain_text)) \<and>
   step (current_state Map.empty ''U1'') = AWAIT_FACE \<and>
   table_of (handleEvent world_ok Map.empty (text_event plain_text)) = table_with fresh_state \<and>
   calls_of (handleEvent world_ok Map.empty (text_event plain_text)) =
     [ReplyCall ''tok'' (TextMessage MSG_PHOTO_PROMPT None)] \<and>
   step (state_at AWAIT_MODEL_IMAGE (Some ''/9j/'') (Some QR_BOB)) = AWAIT_MODEL_IMAGE \<and>
   calls_of (handleEvent world_ok (table_with (state_at AWAIT_MODEL_IMAGE (Some ''/9j/'') (Some QR_BOB)))
       (text_event plain_text)) =
     [ReplyCall ''tok'' (TextMessage MSG_PHOTO_PROMPT None)] \<and>
   step (state_at AWAIT_STYLE (Some ''/9j/'') None) = AWAIT_STYLE \<and>
   table_of (handleEvent world_ok (table_with (state_at AWAIT_STYLE (Some ''/9j/'') None))
       (text_event plain_text)) =
     table_with (state_at AWAIT_COLOR (Some ''/9j/'') (Some plain_text)) \<and>
   step (state_at AWAIT_COLOR None (Some QR_BOB)) = AWAIT_COLOR \<and>
   hd (calls_of (handleEvent world_ok (table_with (state_at AWAIT_COLOR None (Some QR_BOB)))
       (text_event plain_text))) =
     ReplyCall ''tok'' (TextMessage MSG_SELFIE_FIRST None)"
proof -
  let ?s1 = "state_at AWAIT_MODEL_IMAGE (Some ''/9j/'') (Some QR_BOB)"
  let ?s2 = "state_at AWAIT_STYLE (Some ''/9j/'') None"
  let ?s3 = "state_at AWAIT_COLOR None (Some QR_BOB)"
  have k: "kind (text_event plain_text) = Message (Text (Some plain_text))"
    by simp
  have u: "unrecognized (text_of (Some plain_text))"
    and r: "\<not> regex_test RE_MODEL_PHOTO (text_of (Some plain_text))"
    by (simp_all add: unrecognized_def plain_text_plain)
  have h0: "step (current_state Map.empty ''U1'') = AWAIT_FACE"
    and h0': "step (current_state Map.empty (userId (text_event plain_text))) = AWAIT_FACE"
    and h1: "step ?s1 = AWAIT_MODEL_IMAGE" and h2: "step ?s2 = AWAIT_STYLE"
    and h3: "step ?s3 = AWAIT_COLOR"
    by (simp_all add: state_at_def fresh_state_def)
  note i0 = unrecognized_text_is_answered [where w = world_ok and us = Map.empty,
      OF k refl refl u r, THEN conjunct2, THEN conjunct1]
  note i1 = unrecognized_text_is_answered [where w = world_ok and us = "table_with ?s1",
      OF k refl refl u r, THEN conjunct2, THEN conjunct2, THEN conjunct1]
  note i2 = unrecognized_text_is_answered [where w = world_ok and us = "table_with ?s2",
      OF k refl refl u r, THEN conjunct2, THEN conjunct2, THEN conjunct2, THEN conjunct1]
  note i3 = unrecognized_text_is_answered [where w = world_ok and us = "table_with ?s3",
      OF k refl refl u r, THEN conjunct2, THEN conjunct2, THEN conjunct2, THEN conjunct2]
  from i0 h0'
  have c0: "table_of (handleEvent world_ok Map.empty (text_event plain_text)) =
      table_with fresh_state"
    and c0': "calls_of (handleEvent world_ok Map.empty (text_event plain_text)) =
      [ReplyCall ''tok'' (TextMessage MSG_PHOTO_PROMPT None)]"
    by simp_all
  from i1 h1
  have c1: "calls_of (handleEvent world_ok (table_with ?s1) (text_event plain_text)) =
      [ReplyCall ''tok'' (TextMessage MSG_PHOTO_PROMPT None)]"
    by simp
  from i2 h2
  have c2: "table_of (handleEvent world_ok (table_with ?s2) (text_event plain_text)) =
      table_with (state_at AWAIT_COLOR (Some ''/9j/'') (Some plain_text))"
    by (simp add: state_at_def plain_text_plain)
  from i3 h3
  have c3: "hd (calls_of (handleEvent world_ok (table_with ?s3) (text_event plain_text))) =
      ReplyCall ''tok'' (TextMessage MSG_SELFIE_FIRST None)"
    by (auto simp: state_at_def truthy_def)
  from k u r h0 c0 c0' h1 c1 h2 c2 h3 c3 show ?thesis by (intro conjI)
qed

text \<open>
  Claim C1 as stated fails: \<^verbatim>\<open>abc\<close> is unrecognized, yet in step
  \<open>AWAIT_STYLE\<close> it is taken as the typed style: the step becomes \<open>AWAIT_COLOR\<close>, not
  \<open>AWAIT_FACE\<close>, and the reply is not the photo prompt.
\<close>

theorem unrecognized_text_counterexample:
  "unrecognized (text_of (Some plain_text)) \<and>
   \<not> (step (current_state (table_of (handleEvent world_ok
       (table_with (state_at AWAIT_STYLE (Some ''/9j/'') None)) (text_event plain_text))) ''U1'') =
     AWAIT_FACE) \<and>
   \<not> (calls_of (handleEvent world_ok (table_with (state_at AWAIT_STYLE (Some ''/9j/'') None))
       (text_event plain_text)) =
     [ReplyCall ''tok'' (TextMessage MSG_PHOTO_PROMPT None)])"
proof -
  have "MSG_ASK_COLOR \<noteq> MSG_PHOTO_PROMPT"
    by (simp add: MSG_ASK_COLOR_def MSG_PHOTO_PROMPT_def)
  then show ?thesis
    by (simp add: unrecognized_def handleEvent_text handle_text_def Let_def plain_text_plain
        state_at_def)
qed

text \<open>
  Step \<open>AWAIT_MODEL_IMAGE\<close> with a face image stored, evaluated: line 298 sends the
  selfie prompt without assigning the step (lines 254-256, which send the other selfie
  prompt, do assign it), so the image sent in answer is stored by lines 199-201 as the
  reference image.
\<close>

lemma fallback_in_await_model_image:
  "handleEvent world_ok (table_with (state_at AWAIT_MODEL_IMAGE (Some ''AAAA'') (Some QR_BOB)))
     (text_event plain_text) =
   (table_with (state_at AWAIT_MODEL_IMAGE (Some ''AAAA'') (Some QR_BOB)),
    [ReplyCall ''tok'' (TextMessage MSG_PHOTO_PROMPT None)], Inr (Some ''{}''))"
  "table_of (handleEvent world_ok
     (table_with (state_at AWAIT_MODEL_IMAGE (Some ''AAAA'') (Some QR_BOB))) image_event) =
   table_with \<lparr>step = AWAIT_COLOR, faceB64 = Some ''AAAA'', style = Some QR_BOB, color = None,
     modelB64 = Some ''/9j/''\<rparr>"
proof -
  have "plain_text \<noteq> SC_TRY_AGAIN" "plain_text \<noteq> SC_CHANGE_STYLE"
    "plain_text \<noteq> SC_CHANGE_COLOR"
    using plain_text_plain(7) by (simp_all add: RESULT_QR_def)
  then show "handleEvent world_ok
      (table_with (state_at AWAIT_MODEL_IMAGE (Some ''AAAA'') (Some QR_BOB)))
      (text_event plain_text) =
    (table_with (state_at AWAIT_MODEL_IMAGE (Some ''AAAA'') (Some QR_BOB)),
     [ReplyCall ''tok'' (TextMessage MSG_PHOTO_PROMPT None)], Inr (Some ''{}''))"
    by (simp add: handleEvent_text handle_text_def Let_def plain_text_plain state_at_def
        respond_def)
  have "getMessageContent world_ok ''m1'' = Inr [0xFF, 0xD8, 0xFF]"
    and "sharp_pipeline world_ok [0xFF, 0xD8, 0xFF] = Inr [0xFF, 0xD8, 0xFF]"
    and "toBase64 world_ok [0xFF, 0xD8, 0xFF] = ''/9j/''"
    by (simp_all add: world_ok_def)
  then show "table_of (handleEvent world_ok
      (table_with (state_at AWAIT_MODEL_IMAGE (Some ''AAAA'') (Some QR_BOB))) image_event) =
    table_with \<lparr>step = AWAIT_COLOR, faceB64 = Some ''AAAA'', style = Some QR_BOB, color = None,
      modelB64 = Some ''/9j/''\<rparr>"
    by (simp add: handleEvent_image handle_image_def getImageBuffer_def preprocessImage_def
        state_at_def truthy_def)
qed

lemma handle_image_await_style:
  assumes "getMessageContent w messageId = Inr buf"
    and "sharp_pipeline w buf = Inr pre"
    and "step st = AWAIT_STYLE"
  shows "handle_image w us ev st messageId =
     respond w ev (us(userId ev \<mapsto> st\<lparr>faceB64 := Some (toBase64 w pre), step := AWAIT_STYLE\<rparr>))
       [GetContent messageId, Sharp buf]
       (TextMessage (if truthy (faceB64 st) then MSG_FACE_UPDATED else MSG_FACE_RECEIVED)
          (Some STYLE_QR))"
  using assms by (simp add: handle_image_def getImageBuffer_def preprocessImage_def)

text \<open>
  Claim C7. An image that arrives in step \<open>AWAIT_STYLE\<close> while a face image is
  stored, and that is fetched and preprocessed without error, replaces the face image by
  the new preprocessed one and leaves the step, the style, the colour and the reference
  image as they are; handling the same image again (the same event, or another image
  message of the user with the same content) leaves the table as it is.
\<close>

theorem image_resend_replaces_face:
  assumes "kind ev = Message (Image messageId)"
    and "st = current_state us (userId ev)"
    and "getMessageContent w messageId = Inr buf"
    and "sharp_pipeline w buf = Inr pre"
    and "step st = AWAIT_STYLE"
    and "truthy (faceB64 st)"
  shows "table_of (handleEvent w us ev) =
           us(userId ev \<mapsto> st\<lparr>faceB64 := Some (toBase64 w pre), step := AWAIT_STYLE\<rparr>) \<and>
         faceB64 (current_state (table_of (handleEvent w us ev)) (userId ev)) =
           Some (toBase64 w pre) \<and>
         step (current_state (table_of (handleEvent w us ev)) (userId ev)) = step st \<and>
         style (current_state (table_of (handleEvent w us ev)) (userId ev)) = style st \<and>
         color (current_state (table_of (handleEvent w us ev)) (userId ev)) = color st \<and>
         modelB64 (current_state (table_of (handleEvent w us ev)) (userId ev)) = modelB64 st \<and>
         calls_of (handleEvent w us ev) =
           [GetContent messageId, Sharp buf] @
           fst (reply w (replyToken ev) (TextMessage MSG_FACE_UPDATED (Some STYLE_QR))) \<and>
         (\<forall>ev' messageId'.
            userId ev' = userId ev \<and> kind ev' = Message (Image messageId') \<and>
            getMessageContent w messageId' = Inr buf \<longrightarrow>
            table_of (handleEvent w (table_of (handleEvent w us ev)) ev') =
              table_of (handleEvent w us ev))"
proof -
  let ?st' = "st\<lparr>faceB64 := Some (toBase64 w pre), step := AWAIT_STYLE\<rparr>"
  have one: "handleEvent w us ev =
      respond w ev (us(userId ev \<mapsto> ?st')) [GetContent messageId, Sharp buf]
        (TextMessage MSG_FACE_UPDATED (Some STYLE_QR))"
    using assms by (simp add: handleEvent_image handle_image_await_style)
  have again: "table_of (handleEvent w (us(userId ev \<mapsto> ?st')) ev') = us(userId ev \<mapsto> ?st')"
    if "userId ev' = userId ev" and "kind ev' = Message (Image messageId')"
      and "getMessageContent w messageId' = Inr buf" for ev' messageId'
  proof -
    have "step ?st' = AWAIT_STYLE" by simp
    with that assms(4) show ?thesis
      by (simp add: handleEvent_image handle_image_await_style)
  qed
  from one again assms(5) show ?thesis by simp
qed

lemma image_ok:
  "getMessageContent world_ok mid = Inr [0xFF, 0xD8, 0xFF]"
  "sharp_pipeline world_ok buf = Inr buf"
  "toBase64 world_ok buf = ''/9j/''"
  by (simp_all add: world_ok_def)

text \<open>
  A user in \<open>AWAIT_STYLE\<close> with an older face image sends an image.
\<close>

theorem image_resend_replaces_face_witness:
  "kind image_event = Message (Image ''m1'') \<and>
   getMessageContent world_ok ''m1'' = Inr [0xFF, 0xD8, 0xFF] \<and>
   sharp_pipeline world_ok [0xFF, 0xD8, 0xFF] = Inr [0xFF, 0xD8, 0xFF] \<and>
   step (state_at AWAIT_STYLE (Some ''AAAA'') (Some QR_BOB)) = AWAIT_STYLE \<and>
   truthy (faceB64 (state_at AWAIT_STYLE (Some ''AAAA'') (Some QR_BOB))) \<and>
   table_of (handleEvent world_ok (table_with (state_at AWAIT_STYLE (Some ''AAAA'') (Some QR_BOB)))
       image_event) =
     table_with (state_at AWAIT_STYLE (Some ''/9j/'') (Some QR_BOB)) \<and>
   table_of (handleEvent world_ok (table_with (state_at AWAIT_STYLE (Some ''/9j/'') (Some QR_BOB)))
       image_event) =
     table_with (state_at AWAIT_STYLE (Some ''/9j/'') (Some QR_BOB))"
proof -
  let ?s0 = "state_at AWAIT_STYLE (Some ''AAAA'') (Some QR_BOB)"
  let ?s1 = "state_at AWAIT_STYLE (Some ''/9j/'') (Some QR_BOB)"
  have k: "kind image_event = Message (Image ''m1'')"
    by simp
  have s: "step (current_state (table_with ?s0) (userId image_event)) = AWAIT_STYLE"
    and f: "truthy (faceB64 (current_state (table_with ?s0) (userId image_event)))"
    and s': "step ?s0 = AWAIT_STYLE" and f': "truthy (faceB64 ?s0)"
    by (simp_all add: state_at_def truthy_def)
  note inst = image_resend_replaces_face [where w = world_ok and us = "table_with ?s0",
      OF k refl image_ok(1) image_ok(2) s f]
  from inst [THEN conjunct1]
  have c1: "table_of (handleEvent world_ok (table_with ?s0) image_event) = table_with ?s1"
    by (simp add: state_at_def image_ok)
  from inst [THEN conjunct2, THEN conjunct2, THEN conjunct2, THEN conjunct2, THEN conjunct2,
      THEN conjunct2, THEN conjunct2, THEN spec, THEN spec, of image_event "''m1''"]
  have c2: "table_of (handleEvent world_ok (table_with ?s1) image_event) = table_with ?s1"
    unfolding c1 by (simp add: image_ok)
  from k image_ok(1) [of "''m1''"] image_ok(2) [of "[0xFF, 0xD8, 0xFF]"] s' f' c1 c2
  show ?thesis by (intro conjI)
qed

text \<open>
  Claim C2, at the state the claim matters most for. A successful generation
  pushes the completion message whose quick reply offers "try once more" and leaves the
  user in step \<open>AWAIT_STYLE\<close>. Tapping that quick reply there does not reach the
  shortcut of line 283: the branch of line 246 returns first, stores the shortcut's text
  as the style and moves to \<open>AWAIT_COLOR\<close>.
\<close>

theorem try_again_after_generation:
  "PushCall ''U1'' (TextMessage MSG_DONE (Some RESULT_QR)) \<in>
     set (calls_of (handleEvent world_ok
       (table_with (state_at AWAIT_COLOR (Some ''/9j/'') (Some QR_BOB))) (text_event QR_KEEP))) \<and>
   SC_TRY_AGAIN \<in> set RESULT_QR \<and>
   table_of (handleEvent world_ok
       (table_with (state_at AWAIT_COLOR (Some ''/9j/'') (Some QR_BOB))) (text_event QR_KEEP)) =
     table_with (state_at AWAIT_STYLE (Some ''/9j/'') (Some QR_BOB)) \<and>
   table_of (handleEvent world_ok (table_with (state_at AWAIT_STYLE (Some ''/9j/'') (Some QR_BOB)))
       (text_event SC_TRY_AGAIN)) =
     table_with (state_at AWAIT_COLOR (Some ''/9j/'') (Some SC_TRY_AGAIN)) \<and>
   calls_of (handleEvent world_ok (table_with (state_at AWAIT_STYLE (Some ''/9j/'') (Some QR_BOB)))
       (text_event SC_TRY_AGAIN)) =
     [ReplyCall ''tok'' (TextMessage MSG_ASK_COLOR (Some COLOR_QR))]"
proof -
  let ?st = "state_at AWAIT_COLOR (Some ''/9j/'') (Some QR_BOB)"
  let ?url = "''https://bot.example/tmp/hair_U1_1700000000000.jpg''"
  have "try_generate world_ok ''U1'' (?st\<lparr>color := Some []\<rparr>) =
      (?st\<lparr>color := Some [], step := AWAIT_STYLE, modelB64 := None, color := None\<rparr>,
       fst (callGeminiImageCompose world_ok (generation_args (?st\<lparr>color := Some []\<rparr>))) @
       fst (saveTempImage world_ok ''R0VO'' ''U1'' ''hair'') @
       fst (push world_ok ''U1'' (ImageMessage ?url ?url)) @
       fst (push world_ok ''U1'' (TextMessage MSG_DONE (Some RESULT_QR))), Inr ())"
    by (rule try_generate_success) (simp_all add: generation_ok save_ok)
  then have first: "handleEvent world_ok (table_with ?st) (text_event QR_KEEP) =
      (table_with (state_at AWAIT_STYLE (Some ''/9j/'') (Some QR_BOB)),
       [ReplyCall ''tok'' (TextMessage MSG_GENERATING None)] @
       fst (callGeminiImageCompose world_ok (generation_args (?st\<lparr>color := Some []\<rparr>))) @
       fst (saveTempImage world_ok ''R0VO'' ''U1'' ''hair'') @
       fst (push world_ok ''U1'' (ImageMessage ?url ?url)) @
       fst (push world_ok ''U1'' (TextMessage MSG_DONE (Some RESULT_QR))), Inr None)"
    by (simp add: handleEvent_text
        handle_text_await_color [OF refl _ _ _ _ refl] keep_plain state_at_def truthy_def)
  have second: "handleEvent world_ok (table_with (state_at AWAIT_STYLE (Some ''/9j/'') (Some QR_BOB)))
      (text_event SC_TRY_AGAIN) =
      respond world_ok (text_event SC_TRY_AGAIN)
        (table_with (state_at AWAIT_COLOR (Some ''/9j/'') (Some SC_TRY_AGAIN))) []
        (TextMessage MSG_ASK_COLOR (Some COLOR_QR))"
    by (simp add: handleEvent_text handle_text_def Let_def try_again_plain state_at_def)
  show ?thesis
    unfolding first second by (simp add: RESULT_QR_def)
qed

end
